theory Spec2Isabelle
  imports Main "HOL-Library.Word" "HOL-Library.Char_ord" "HOL-Library.AList"
begin

section \<open>Go values used by package rdb\<close>

text \<open>
  A Go string is a sequence of bytes; \<^typ>\<open>string\<close> is a list of 8-bit characters, so
  \<^const>\<open>length\<close> is Go's \<open>len\<close> and list positions are byte positions.

  \<open>ParseConfigURL\<close> calls into Go's standard library (\<open>net/url\<close>, \<open>strconv\<close>,
  \<open>strings\<close>, \<open>time\<close>). Those functions are not part of the repository; sections
  \<open>strings\<close> to \<open>net/url\<close> below follow the library's sources (Go 1.22, 64-bit
  \<open>int\<close>), function by function, so that the repository's code can be run on concrete
  connection strings.
\<close>

datatype url_error =
    InvalidControlCharacter       \<comment> \<open>net/url: invalid control character in URL\<close>
  | MissingProtocolScheme         \<comment> \<open>missing protocol scheme\<close>
  | FirstPathSegmentColon         \<comment> \<open>first path segment in URL cannot contain colon\<close>
  | InvalidUserinfo               \<comment> \<open>net/url: invalid userinfo\<close>
  | MissingBracket                \<comment> \<open>missing ']' in host\<close>
  | InvalidPort string            \<comment> \<open>invalid port %q after host\<close>
  | EscapeError string            \<comment> \<open>invalid URL escape %q\<close>
  | InvalidHostError string       \<comment> \<open>invalid character %q in host name\<close>
  | InvalidSemicolon              \<comment> \<open>invalid semicolon separator in query\<close>

datatype duration_error =
    InvalidDuration               \<comment> \<open>time: invalid duration\<close>
  | MissingUnit                   \<comment> \<open>time: missing unit in duration\<close>
  | UnknownUnit string            \<comment> \<open>time: unknown unit %q in duration\<close>

datatype error =
    ErrSyntax string string       \<comment> \<open>\<open>*strconv.NumError\<close> with \<open>Err = ErrSyntax\<close>: function, input\<close>
  | ErrRange string string        \<comment> \<open>\<open>*strconv.NumError\<close> with \<open>Err = ErrRange\<close>: function, input\<close>
  | ErrDuration duration_error string   \<comment> \<open>error of \<open>time.ParseDuration\<close>: cause, input\<close>
  | ErrURL string url_error       \<comment> \<open>\<open>*url.Error\<close> of operation \<open>parse\<close>: input, cause\<close>

text \<open>A call either returns its results or panics with a run-time error.\<close>

datatype 'a exec = Returns 'a | Panics string

section \<open>Package strings\<close>

definition HasPrefix :: "string \<Rightarrow> string \<Rightarrow> bool" where
  "HasPrefix s pre = (length s \<ge> length pre \<and> take (length pre) s = pre)"

definition HasSuffix :: "string \<Rightarrow> string \<Rightarrow> bool" where
  "HasSuffix s suf = (length s \<ge> length suf \<and> drop (length s - length suf) s = suf)"

text \<open>\<open>strings.Index(s, substr)\<close>: the first position of \<open>substr\<close>, \<open>None\<close> for Go's \<open>-1\<close>.\<close>

fun Index :: "string \<Rightarrow> string \<Rightarrow> nat option" where
  "Index [] sub = (if sub = [] then Some 0 else None)"
| "Index (c # cs) sub =
     (if HasPrefix (c # cs) sub then Some 0 else map_option Suc (Index cs sub))"

text \<open>\<open>strings.LastIndex(s, substr)\<close>: the last position of \<open>substr\<close>.\<close>

fun LastIndex :: "string \<Rightarrow> string \<Rightarrow> nat option" where
  "LastIndex [] sub = (if sub = [] then Some 0 else None)"
| "LastIndex (c # cs) sub =
     (case LastIndex cs sub of
        Some i \<Rightarrow> Some (Suc i)
      | None \<Rightarrow> if HasPrefix (c # cs) sub then Some 0 else None)"

definition Contains :: "string \<Rightarrow> string \<Rightarrow> bool" where
  "Contains s sub = (Index s sub \<noteq> None)"

text \<open>\<open>strings.Cut(s, sep)\<close>: the text before and after the first \<open>sep\<close>, and whether
  \<open>sep\<close> was found; \<open>(s, "", false)\<close> when it was not.\<close>

definition Cut :: "string \<Rightarrow> string \<Rightarrow> string \<times> string \<times> bool" where
  "Cut s sep =
     (case Index s sep of
        Some i \<Rightarrow> (take i s, drop (i + length sep) s, True)
      | None \<Rightarrow> (s, [], False))"

lemma Index_Some_bound: "Index s sub = Some i \<Longrightarrow> i + length sub \<le> length s"
  by (induction s arbitrary: i) (auto simp: HasPrefix_def split: if_splits)

lemma Index_Some_shorter:
  "Index s sub = Some i \<Longrightarrow> sub \<noteq> [] \<Longrightarrow> length s - (i + length sub) < length s"
  using Index_Some_bound [of s sub i] by (cases sub) auto

text \<open>\<open>strings.Count(s, substr)\<close>: non-overlapping occurrences of \<open>substr\<close>
  (for the empty \<open>substr\<close>, one more than the length of an ASCII \<open>s\<close>).\<close>

function Count :: "string \<Rightarrow> string \<Rightarrow> nat" where
  "Count s sub =
     (if sub = [] then length s + 1
      else case Index s sub of
             None \<Rightarrow> 0
           | Some i \<Rightarrow> Suc (Count (drop (i + length sub) s) sub))"
  by pat_completeness auto
termination
  by (relation "measure (\<lambda>(s, sub). length s)") (auto dest: Index_Some_shorter)

text \<open>\<open>strings.Split(s, sep)\<close>: the pieces between the occurrences of \<open>sep\<close>,
  at least one piece when \<open>sep\<close> is not empty (for the empty \<open>sep\<close>, the
  characters of an ASCII \<open>s\<close>).\<close>

function Split :: "string \<Rightarrow> string \<Rightarrow> string list" where
  "Split s sep =
     (if sep = [] then map (\<lambda>c. [c]) s
      else case Index s sep of
             None \<Rightarrow> [s]
           | Some i \<Rightarrow> take i s # Split (drop (i + length sep) s) sep)"
  by pat_completeness auto
termination
  by (relation "measure (\<lambda>(s, sep). length s)") (auto dest: Index_Some_shorter)

declare Count.simps [simp del] Split.simps [simp del]

text \<open>\<open>strings.ToLower\<close> on ASCII letters (the only bytes of a URL scheme).\<close>

definition lower :: "char \<Rightarrow> char" where
  "lower ch = (if CHR ''A'' \<le> ch \<and> ch \<le> CHR ''Z'' then char_of (of_char ch + (32::nat)) else ch)"

definition ToLower :: "string \<Rightarrow> string" where
  "ToLower s = map lower s"

section \<open>Package strconv\<close>

definition isDigit :: "char \<Rightarrow> bool" where
  "isDigit c = (CHR ''0'' \<le> c \<and> c \<le> CHR ''9'')"

text \<open>The digit's value, \<open>c - '0'\<close>.\<close>

definition digitVal :: "char \<Rightarrow> nat" where
  "digitVal c = of_char c - of_char CHR ''0''"

definition maxUint64 :: nat where
  "maxUint64 = 2 ^ 64 - 1"

text \<open>
  The loop of \<open>strconv.ParseUint(s, 10, bitSize)\<close> over the bytes of \<open>s\<close>; \<open>n\<close> is
  the \<open>uint64\<close> accumulated so far, so \<open>n + d\<close> wraps at \<open>2^64\<close>. In base 10 a
  letter is a digit of value at least 10 and an underscore is not a digit: both are
  syntax errors, like every other byte that is not a decimal digit.
\<close>

fun ParseUint_loop :: "string \<Rightarrow> nat \<Rightarrow> nat \<Rightarrow> string \<Rightarrow> nat \<times> error option" where
  "ParseUint_loop s0 maxVal n [] = (n, None)"
| "ParseUint_loop s0 maxVal n (c # cs) =
     (if \<not> isDigit c then (0, Some (ErrSyntax ''ParseUint'' s0))
      else
        let d = digitVal c;
            cutoff = maxUint64 div 10 + 1
        in if n \<ge> cutoff then (maxVal, Some (ErrRange ''ParseUint'' s0))
           else
             let n = n * 10;
                 n1 = (n + d) mod 2 ^ 64
             in if n1 < n \<or> n1 > maxVal then (maxVal, Some (ErrRange ''ParseUint'' s0))
                else ParseUint_loop s0 maxVal n1 cs)"

text \<open>\<open>strconv.ParseUint(s, 10, bitSize)\<close> for \<open>0 \<le> bitSize \<le> 64\<close>; \<open>bitSize = 0\<close>
  stands for the size of \<open>int\<close>, 64 bits.\<close>

definition ParseUint10 :: "string \<Rightarrow> nat \<Rightarrow> nat \<times> error option" where
  "ParseUint10 s bitSize =
     (if s = [] then (0, Some (ErrSyntax ''ParseUint'' s))
      else
        let bitSize = (if bitSize = 0 then 64 else bitSize);
            maxVal = 2 ^ bitSize - 1
        in ParseUint_loop s maxVal 0 s)"

text \<open>\<open>strconv.ParseInt(s, 10, 0)\<close>: an optional sign, then \<open>ParseUint\<close>, then the range of
  a 64-bit \<open>int\<close>. A range error carries the nearest representable value.\<close>

definition ParseInt10 :: "string \<Rightarrow> int \<times> error option" where
  "ParseInt10 s0 =
     (if s0 = [] then (0, Some (ErrSyntax ''ParseInt'' s0))
      else
        let neg = (hd s0 = CHR ''-'');
            s = (if hd s0 = CHR ''+'' \<or> hd s0 = CHR ''-'' then tl s0 else s0);
            cutoff = (2::nat) ^ 63
        in case ParseUint10 s 0 of
             (un, Some (ErrSyntax f x)) \<Rightarrow> (0, Some (ErrSyntax ''ParseInt'' s0))
           | (un, _) \<Rightarrow>
               if \<not> neg \<and> un \<ge> cutoff then (int cutoff - 1, Some (ErrRange ''ParseInt'' s0))
               else if neg \<and> un > cutoff then (- int cutoff, Some (ErrRange ''ParseInt'' s0))
               else (if neg then - int un else int un, None))"

text \<open>The fast path of \<open>strconv.Atoi\<close> for inputs of 1 to 18 bytes: no overflow is
  possible, so the digits are accumulated without a check.\<close>

fun Atoi_fast :: "string \<Rightarrow> int \<Rightarrow> string \<Rightarrow> int \<times> error option" where
  "Atoi_fast s0 n [] = (if hd s0 = CHR ''-'' then - n else n, None)"
| "Atoi_fast s0 n (ch # cs) =
     (if \<not> isDigit ch then (0, Some (ErrSyntax ''Atoi'' s0))
      else Atoi_fast s0 (n * 10 + int (digitVal ch)) cs)"

definition Atoi :: "string \<Rightarrow> int \<times> error option" where
  "Atoi s0 =
     (let sLen = length s0
      in if 0 < sLen \<and> sLen < 19 then
           (if hd s0 = CHR ''-'' \<or> hd s0 = CHR ''+'' then
              (if length (tl s0) < 1 then (0, Some (ErrSyntax ''Atoi'' s0))
               else Atoi_fast s0 0 (tl s0))
            else Atoi_fast s0 0 s0)
         else
           (case ParseInt10 s0 of
              (i64, Some (ErrSyntax f x)) \<Rightarrow> (i64, Some (ErrSyntax ''Atoi'' x))
            | (i64, Some (ErrRange f x)) \<Rightarrow> (i64, Some (ErrRange ''Atoi'' x))
            | (i64, err) \<Rightarrow> (i64, err)))"

section \<open>Package time\<close>

text \<open>
  A \<open>time.Duration\<close> is an \<open>int64\<close> count of nanoseconds. \<open>ParseDuration\<close>
  accumulates in \<open>uint64\<close> and guards every step against \<open>2^63\<close>.
\<close>

definition Nanosecond :: int where "Nanosecond = 1"
definition Microsecond :: int where "Microsecond = 1000 * Nanosecond"
definition Millisecond :: int where "Millisecond = 1000 * Microsecond"
definition Second :: int where "Second = 1000 * Millisecond"
definition Minute :: int where "Minute = 60 * Second"
definition Hour :: int where "Hour = 60 * Minute"

text \<open>The table \<open>unitMap\<close>; the two spellings of the micro sign are UTF-8, two bytes each.\<close>

definition unitMap :: "(string \<times> nat) list" where
  "unitMap =
     [(''ns'', nat Nanosecond),
      (''us'', nat Microsecond),
      ([CHR 0xC2, CHR 0xB5, CHR ''s''], nat Microsecond),
      ([CHR 0xCE, CHR 0xBC, CHR ''s''], nat Microsecond),
      (''ms'', nat Millisecond),
      (''s'', nat Second),
      (''m'', nat Minute),
      (''h'', nat Hour)]"

text \<open>\<open>leadingInt\<close>: the leading \<open>[0-9]*\<close> of \<open>s\<close> as a number and the rest of
  \<open>s\<close>; \<open>None\<close> is \<open>errLeadingInt\<close> (the number passed \<open>2^63\<close>).\<close>

fun leadingInt :: "nat \<Rightarrow> string \<Rightarrow> (nat \<times> string) option" where
  "leadingInt x [] = Some (x, [])"
| "leadingInt x (c # cs) =
     (if \<not> isDigit c then Some (x, c # cs)
      else if x > 2 ^ 63 div 10 then None
      else
        let x = x * 10 + digitVal c
        in if x > 2 ^ 63 then None else leadingInt x cs)"

text \<open>\<open>leadingFraction\<close>: the leading \<open>[0-9]*\<close> of \<open>s\<close> as a number \<open>x\<close> with its
  scale (a power of ten, exact as a \<open>float64\<close>: at most \<open>10^19\<close>), and the rest of
  \<open>s\<close>; digits after an overflow are consumed and ignored.\<close>

fun leadingFraction :: "nat \<Rightarrow> nat \<Rightarrow> bool \<Rightarrow> string \<Rightarrow> nat \<times> nat \<times> string" where
  "leadingFraction x scale overflow [] = (x, scale, [])"
| "leadingFraction x scale overflow (c # cs) =
     (if \<not> isDigit c then (x, scale, c # cs)
      else if overflow then leadingFraction x scale overflow cs
      else if x > (2 ^ 63 - 1) div 10 then leadingFraction x scale True cs
      else
        let y = x * 10 + digitVal c
        in if y > 2 ^ 63 then leadingFraction x scale True cs
           else leadingFraction y (scale * 10) overflow cs)"

text \<open>
  The one floating-point expression of \<open>ParseDuration\<close>,
  \<open>uint64(float64(f) * (float64(unit) / scale))\<close>, is a parameter of the model: a
  function of \<open>f\<close>, \<open>unit\<close> and \<open>scale\<close>. It is evaluated only for a duration
  with a non-zero fractional part.
\<close>

type_synonym fracNanos = "nat \<Rightarrow> nat \<Rightarrow> nat \<Rightarrow> nat"

text \<open>One pass of the loop of \<open>ParseDuration\<close> up to the unit: a number
  \<open>[0-9]*(\.[0-9]*)?\<close> and its unit, giving the nanoseconds \<open>v\<close> of this term and the
  rest of the input.\<close>

definition ParseDuration_term ::
    "fracNanos \<Rightarrow> string \<Rightarrow> string \<Rightarrow> error + (nat \<times> string)" where
  "ParseDuration_term fr orig s =
     (if \<not> (hd s = CHR ''.'' \<or> isDigit (hd s)) then Inl (ErrDuration InvalidDuration orig)
      else case leadingInt 0 s of
        None \<Rightarrow> Inl (ErrDuration InvalidDuration orig)
      | Some (v, s1) \<Rightarrow>
          let pre = (length s \<noteq> length s1);
              (f, scale, s2) =
                (if s1 \<noteq> [] \<and> hd s1 = CHR ''.'' then leadingFraction 0 1 False (tl s1)
                 else (0, 1, s1));
              post = (s1 \<noteq> [] \<and> hd s1 = CHR ''.'' \<and> length (tl s1) \<noteq> length s2)
          in if \<not> pre \<and> \<not> post then Inl (ErrDuration InvalidDuration orig)
             else
               let u = takeWhile (\<lambda>c. \<not> (c = CHR ''.'' \<or> isDigit c)) s2;
                   s3 = dropWhile (\<lambda>c. \<not> (c = CHR ''.'' \<or> isDigit c)) s2
               in if length u = 0 then Inl (ErrDuration MissingUnit orig)
                  else case map_of unitMap u of
                    None \<Rightarrow> Inl (ErrDuration (UnknownUnit u) orig)
                  | Some unit \<Rightarrow>
                      if v > 2 ^ 63 div unit then Inl (ErrDuration InvalidDuration orig)
                      else
                        let v = v * unit
                        in if f > 0 then
                             (let v = (v + fr f unit scale) mod 2 ^ 64
                              in if v > 2 ^ 63 then Inl (ErrDuration InvalidDuration orig)
                                 else Inr (v, s3))
                           else Inr (v, s3))"

lemma leadingInt_length: "leadingInt x s = Some (v, r) \<Longrightarrow> length r \<le> length s"
  by (induction x s rule: leadingInt.induct) (auto simp: Let_def split: if_splits)

lemma leadingFraction_length:
  "leadingFraction x sc ov s = (f, sc', r) \<Longrightarrow> length r \<le> length s"
  by (induction x sc ov s rule: leadingFraction.induct) (auto simp: Let_def split: if_splits)

lemma unit_rest_shorter: "takeWhile P s \<noteq> [] \<Longrightarrow> length (dropWhile P s) < length s"
  by (cases s) (auto simp: less_Suc_eq_le length_dropWhile_le split: if_splits)

lemma ParseDuration_term_shorter:
  assumes "ParseDuration_term fr orig s = Inr (v, r)"
  shows "length r < length s"
proof -
  let ?P = "\<lambda>c. \<not> (c = CHR ''.'' \<or> isDigit c)"
  from assms obtain v0 s1 where li: "leadingInt 0 s = Some (v0, s1)"
    by (auto simp: ParseDuration_term_def split: if_splits option.splits)
  obtain f scale s2 where fr:
    "(if s1 \<noteq> [] \<and> hd s1 = CHR ''.'' then leadingFraction 0 1 False (tl s1)
      else (0, 1, s1)) = (f, scale, s2)"
    by (metis prod_cases3)
  have s1: "length s1 \<le> length s"
    using li by (rule leadingInt_length)
  have s2: "length s2 \<le> length s1"
    using fr leadingFraction_length [of 0 1 False "tl s1" f scale s2]
    by (auto split: if_splits)
  from assms li fr have u: "takeWhile ?P s2 \<noteq> []" and r: "r = dropWhile ?P s2"
    by (auto simp: ParseDuration_term_def Let_def split: if_splits option.splits)
  from unit_rest_shorter [OF u] r s1 s2 show ?thesis by simp
qed

text \<open>The loop \<open>for s != ""\<close> of \<open>ParseDuration\<close>: \<open>d\<close> is the \<open>uint64\<close> total so
  far, and \<open>d += v\<close> wraps at \<open>2^64\<close>.\<close>

function ParseDuration_loop :: "fracNanos \<Rightarrow> string \<Rightarrow> nat \<Rightarrow> string \<Rightarrow> error + nat" where
  "ParseDuration_loop fr orig d s =
     (if s = [] then Inr d
      else case ParseDuration_term fr orig s of
             Inl err \<Rightarrow> Inl err
           | Inr (v, s') \<Rightarrow>
               let d = (d + v) mod 2 ^ 64
               in if d > 2 ^ 63 then Inl (ErrDuration InvalidDuration orig)
                  else ParseDuration_loop fr orig d s')"
  by pat_completeness auto
termination
  by (relation "measure (\<lambda>(fr, orig, d, s). length s)")
     (auto dest: ParseDuration_term_shorter)

declare ParseDuration_loop.simps [simp del]

text \<open>\<open>time.ParseDuration(s)\<close>: \<open>[-+]?([0-9]*(\.[0-9]*)?[a-z]+)+\<close>, or \<open>0\<close> alone.\<close>

definition ParseDuration :: "fracNanos \<Rightarrow> string \<Rightarrow> int \<times> error option" where
  "ParseDuration fr orig =
     (let neg = (orig \<noteq> [] \<and> hd orig = CHR ''-'');
          s = (if orig \<noteq> [] \<and> (hd orig = CHR ''-'' \<or> hd orig = CHR ''+'') then tl orig
               else orig)
      in if s = ''0'' then (0, None)
         else if s = [] then (0, Some (ErrDuration InvalidDuration orig))
         else case ParseDuration_loop fr orig 0 s of
                Inl err \<Rightarrow> (0, Some err)
              | Inr d \<Rightarrow>
                  if neg then (- int d, None)
                  else if d > 2 ^ 63 - 1 then (0, Some (ErrDuration InvalidDuration orig))
                  else (int d, None))"

section \<open>Package net/url\<close>

datatype encoding =
    encodePath | encodePathSegment | encodeHost | encodeZone
  | encodeUserPassword | encodeQueryComponent | encodeFragment

definition isAlpha :: "char \<Rightarrow> bool" where
  "isAlpha ch = (CHR ''a'' \<le> ch \<and> ch \<le> CHR ''z'' \<or> CHR ''A'' \<le> ch \<and> ch \<le> CHR ''Z'')"

definition ishex :: "char \<Rightarrow> bool" where
  "ishex c = (isDigit c \<or> CHR ''a'' \<le> c \<and> c \<le> CHR ''f'' \<or> CHR ''A'' \<le> c \<and> c \<le> CHR ''F'')"

definition unhex :: "char \<Rightarrow> nat" where
  "unhex c =
     (if isDigit c then of_char c - of_char CHR ''0''
      else if CHR ''a'' \<le> c \<and> c \<le> CHR ''f'' then of_char c - of_char CHR ''a'' + 10
      else if CHR ''A'' \<le> c \<and> c \<le> CHR ''F'' then of_char c - of_char CHR ''A'' + 10
      else 0)"

text \<open>\<open>shouldEscape(c, mode)\<close>: whether byte \<open>c\<close> has to be escaped in the part of the
  URL that \<open>mode\<close> names.\<close>

text \<open>(\<open>CHR 0x27\<close> is the apostrophe, \<open>CHR 0x22\<close> the double quote.)\<close>

definition shouldEscape :: "char \<Rightarrow> encoding \<Rightarrow> bool" where
  "shouldEscape c mode =
     (if isAlpha c \<or> isDigit c then False
      else if (mode = encodeHost \<or> mode = encodeZone) \<and> c \<in> set (''!$&()*+,;=:[]<>'' @ [CHR 0x27, CHR 0x22]) then False
      else if c \<in> set ''-_.~'' then False
      else if c \<in> set ''$&+,/:;=?@'' \<and> mode = encodePath then c = CHR ''?''
      else if c \<in> set ''$&+,/:;=?@'' \<and> mode = encodePathSegment then c \<in> set ''/;,?''
      else if c \<in> set ''$&+,/:;=?@'' \<and> mode = encodeUserPassword then c \<in> set ''@/?:''
      else if c \<in> set ''$&+,/:;=?@'' \<and> mode = encodeQueryComponent then True
      else if c \<in> set ''$&+,/:;=?@'' \<and> mode = encodeFragment then False
      else if mode = encodeFragment \<and> c \<in> set ''!()*'' then False
      else True)"

text \<open>
  \<open>unescape(s, mode)\<close> makes two passes. The first checks every \<open>%\<close> to be followed
  by two hex digits and, in a host, every byte to be one a host may hold; it returns the
  first error.
\<close>

fun unescape_check :: "encoding \<Rightarrow> string \<Rightarrow> url_error option" where
  "unescape_check mode [] = None"
| "unescape_check mode (c # cs) =
     (if c = CHR ''%'' then
        (case cs of
           a # b # rest \<Rightarrow>
             if \<not> ishex a \<or> \<not> ishex b then Some (EscapeError [c, a, b])
             else if mode = encodeHost \<and> unhex a < 8 \<and> [c, a, b] \<noteq> ''%25''
               then Some (EscapeError [c, a, b])
             else if mode = encodeZone \<and> [c, a, b] \<noteq> ''%25''
                     \<and> unhex a * 16 + unhex b \<noteq> of_char CHR '' ''
                     \<and> shouldEscape (char_of (unhex a * 16 + unhex b)) encodeHost
               then Some (EscapeError [c, a, b])
             else unescape_check mode rest
         | _ \<Rightarrow> Some (EscapeError (c # cs)))
      else if (mode = encodeHost \<or> mode = encodeZone) \<and> of_char c < (0x80::nat)
              \<and> shouldEscape c encodeHost
        then Some (InvalidHostError [c])
      else unescape_check mode cs)"

text \<open>The second pass, run on a string that passed the first: \<open>%XX\<close> becomes the byte
  \<open>XX\<close>, and \<open>+\<close> becomes a space in a query component. (Without \<open>%\<close> and such a
  \<open>+\<close> the source returns \<open>s\<close> itself, which is what this pass computes then.)\<close>

fun unescape_build :: "encoding \<Rightarrow> string \<Rightarrow> string" where
  "unescape_build mode [] = []"
| "unescape_build mode (c # cs) =
     (if c = CHR ''%'' then
        (case cs of
           a # b # rest \<Rightarrow> char_of (unhex a * 16 + unhex b) # unescape_build mode rest
         | _ \<Rightarrow> c # cs)
      else if c = CHR ''+'' then
        (if mode = encodeQueryComponent then CHR '' '' else CHR ''+'') # unescape_build mode cs
      else c # unescape_build mode cs)"

definition unescape :: "string \<Rightarrow> encoding \<Rightarrow> url_error + string" where
  "unescape s mode =
     (case unescape_check mode s of
        Some err \<Rightarrow> Inl err
      | None \<Rightarrow> Inr (unescape_build mode s))"

definition QueryUnescape :: "string \<Rightarrow> url_error + string" where
  "QueryUnescape s = unescape s encodeQueryComponent"

text \<open>\<open>*Userinfo\<close>; a nil pointer is \<open>None\<close>. \<open>Username\<close> and \<open>Password\<close> accept nil.\<close>

record Userinfo =
  ui_username :: string
  ui_password :: string
  ui_passwordSet :: bool

definition url_User :: "string \<Rightarrow> Userinfo" where
  "url_User name = \<lparr>ui_username = name, ui_password = [], ui_passwordSet = False\<rparr>"

definition url_UserPassword :: "string \<Rightarrow> string \<Rightarrow> Userinfo" where
  "url_UserPassword name pass = \<lparr>ui_username = name, ui_password = pass, ui_passwordSet = True\<rparr>"

definition Userinfo_Username :: "Userinfo option \<Rightarrow> string" where
  "Userinfo_Username u = (case u of None \<Rightarrow> [] | Some ui \<Rightarrow> ui_username ui)"

definition Userinfo_Password :: "Userinfo option \<Rightarrow> string \<times> bool" where
  "Userinfo_Password u = (case u of None \<Rightarrow> ([], False) | Some ui \<Rightarrow> (ui_password ui, ui_passwordSet ui))"

text \<open>The fields of \<open>url.URL\<close>, but for \<open>RawPath\<close> and \<open>RawFragment\<close> (hints for
  re-encoding, which parsing a connection string never reads).\<close>

record URL =
  Scheme :: string
  Opaque :: string
  User :: "Userinfo option"
  Host :: string
  Path :: string
  OmitHost :: bool
  ForceQuery :: bool
  RawQuery :: string
  Fragment :: string

definition newURL :: URL where
  "newURL = \<lparr>Scheme = [], Opaque = [], User = None, Host = [], Path = [],
              OmitHost = False, ForceQuery = False, RawQuery = [], Fragment = []\<rparr>"

definition stringContainsCTLByte :: "string \<Rightarrow> bool" where
  "stringContainsCTLByte s = (\<exists>b \<in> set s. b < CHR '' '' \<or> b = CHR 0x7F)"

text \<open>\<open>getScheme\<close>: \<open>i\<close> is the position of the byte looked at; the result is the scheme
  and the text after its colon, or no scheme and the whole text.\<close>

fun getScheme_loop :: "string \<Rightarrow> nat \<Rightarrow> string \<Rightarrow> url_error + (string \<times> string)" where
  "getScheme_loop rawURL i [] = Inr ([], rawURL)"
| "getScheme_loop rawURL i (c # cs) =
     (if isAlpha c then getScheme_loop rawURL (i + 1) cs
      else if isDigit c \<or> c = CHR ''+'' \<or> c = CHR ''-'' \<or> c = CHR ''.'' then
        (if i = 0 then Inr ([], rawURL) else getScheme_loop rawURL (i + 1) cs)
      else if c = CHR '':'' then
        (if i = 0 then Inl MissingProtocolScheme
         else Inr (take i rawURL, drop (i + 1) rawURL))
      else Inr ([], rawURL))"

definition getScheme :: "string \<Rightarrow> url_error + (string \<times> string)" where
  "getScheme rawURL = getScheme_loop rawURL 0 rawURL"

text \<open>\<open>validUserinfo\<close> ranges over the runes of \<open>s\<close>; a rune outside ASCII is made of
  bytes from \<open>0x80\<close> up and is refused like any other byte not listed.\<close>

definition validUserinfo :: "string \<Rightarrow> bool" where
  "validUserinfo s =
     (\<forall>r \<in> set s. isAlpha r \<or> isDigit r
                   \<or> r \<in> set (''-._:~!$&()*+,;=%@'' @ [CHR 0x27]))"

definition validOptionalPort :: "string \<Rightarrow> bool" where
  "validOptionalPort port =
     (if port = [] then True
      else if hd port \<noteq> CHR '':'' then False
      else (\<forall>b \<in> set (tl port). \<not> (b < CHR ''0'' \<or> b > CHR ''9'')))"

text \<open>\<open>parseHost\<close>: \<open>host[:port]\<close>, the host possibly an IP literal in brackets with a
  zone after \<open>%25\<close>.\<close>

definition parseHost :: "string \<Rightarrow> url_error + string" where
  "parseHost host =
     (if HasPrefix host ''['' then
        (case LastIndex host '']'' of
           None \<Rightarrow> Inl MissingBracket
         | Some i \<Rightarrow>
             let colonPort = drop (i + 1) host
             in if \<not> validOptionalPort colonPort then Inl (InvalidPort colonPort)
                else case Index (take i host) ''%25'' of
                  Some zone \<Rightarrow>
                    (case unescape (take zone host) encodeHost of
                       Inl err \<Rightarrow> Inl err
                     | Inr host1 \<Rightarrow>
                         (case unescape (drop zone (take i host)) encodeZone of
                            Inl err \<Rightarrow> Inl err
                          | Inr host2 \<Rightarrow>
                              (case unescape (drop i host) encodeHost of
                                 Inl err \<Rightarrow> Inl err
                               | Inr host3 \<Rightarrow> Inr (host1 @ host2 @ host3))))
                | None \<Rightarrow> unescape host encodeHost)
      else
        (case LastIndex host '':'' of
           Some i \<Rightarrow>
             let colonPort = drop i host
             in if \<not> validOptionalPort colonPort then Inl (InvalidPort colonPort)
                else unescape host encodeHost
         | None \<Rightarrow> unescape host encodeHost))"

text \<open>\<open>parseAuthority\<close>: \<open>[userinfo@]host\<close>, split at the last \<open>@\<close>.\<close>

definition parseAuthority :: "string \<Rightarrow> url_error + (Userinfo option \<times> string)" where
  "parseAuthority authority =
     (let i = LastIndex authority ''@''
      in case (case i of None \<Rightarrow> parseHost authority
                       | Some i \<Rightarrow> parseHost (drop (i + 1) authority)) of
           Inl err \<Rightarrow> Inl err
         | Inr host \<Rightarrow>
             (case i of
                None \<Rightarrow> Inr (None, host)
              | Some i \<Rightarrow>
                  let userinfo = take i authority
                  in if \<not> validUserinfo userinfo then Inl InvalidUserinfo
                     else if \<not> Contains userinfo '':'' then
                       (case unescape userinfo encodeUserPassword of
                          Inl err \<Rightarrow> Inl err
                        | Inr userinfo \<Rightarrow> Inr (Some (url_User userinfo), host))
                     else
                       (case Cut userinfo '':'' of
                          (username, password, _) \<Rightarrow>
                            (case unescape username encodeUserPassword of
                               Inl err \<Rightarrow> Inl err
                             | Inr username \<Rightarrow>
                                 (case unescape password encodeUserPassword of
                                    Inl err \<Rightarrow> Inl err
                                  | Inr password \<Rightarrow>
                                      Inr (Some (url_UserPassword username password), host))))))"

definition setPath :: "URL \<Rightarrow> string \<Rightarrow> url_error + URL" where
  "setPath u p =
     (case unescape p encodePath of
        Inl err \<Rightarrow> Inl err
      | Inr path \<Rightarrow> Inr (u\<lparr>Path := path\<rparr>))"

definition setFragment :: "URL \<Rightarrow> string \<Rightarrow> url_error + URL" where
  "setFragment u f =
     (case unescape f encodeFragment of
        Inl err \<Rightarrow> Inl err
      | Inr frag \<Rightarrow> Inr (u\<lparr>Fragment := frag\<rparr>))"

text \<open>\<open>parse(rawURL, viaRequest)\<close> with \<open>viaRequest = false\<close>, as \<open>url.Parse\<close> calls it,
  on a URL whose fragment has been cut off.\<close>

definition parse :: "string \<Rightarrow> url_error + URL" where
  "parse rawURL =
     (if stringContainsCTLByte rawURL then Inl InvalidControlCharacter
      else if rawURL = ''*'' then Inr (newURL\<lparr>Path := ''*''\<rparr>)
      else case getScheme rawURL of
        Inl err \<Rightarrow> Inl err
      | Inr (scheme, rest) \<Rightarrow>
          let url = newURL\<lparr>Scheme := ToLower scheme\<rparr>;
              (rest, url) =
                (if HasSuffix rest ''?'' \<and> Count rest ''?'' = 1
                 then (take (length rest - 1) rest, url\<lparr>ForceQuery := True\<rparr>)
                 else (case Cut rest ''?'' of (r, q, _) \<Rightarrow> (r, url\<lparr>RawQuery := q\<rparr>)))
          in if \<not> HasPrefix rest ''/'' \<and> Scheme url \<noteq> [] then Inr (url\<lparr>Opaque := rest\<rparr>)
             else if \<not> HasPrefix rest ''/'' \<and> Contains (fst (Cut rest ''/'')) '':''
               then Inl FirstPathSegmentColon
             else if (Scheme url \<noteq> [] \<or> \<not> HasPrefix rest ''///'') \<and> HasPrefix rest ''//'' then
               (let authority = drop 2 rest;
                    (authority, rest) =
                      (case Index authority ''/'' of
                         Some i \<Rightarrow> (take i authority, drop i authority)
                       | None \<Rightarrow> (authority, []))
                in case parseAuthority authority of
                     Inl err \<Rightarrow> Inl err
                   | Inr (user, host) \<Rightarrow> setPath (url\<lparr>User := user, Host := host\<rparr>) rest)
             else if Scheme url \<noteq> [] \<and> HasPrefix rest ''/'' then
               setPath (url\<lparr>OmitHost := True\<rparr>) rest
             else setPath url rest)"

text \<open>\<open>url.Parse(rawURL)\<close>: either a URL or an \<open>*url.Error\<close>, never both and never
  neither.\<close>

definition url_Parse :: "string \<Rightarrow> error + URL" where
  "url_Parse rawURL =
     (case Cut rawURL ''#'' of
        (u, frag, _) \<Rightarrow>
          (case parse u of
             Inl err \<Rightarrow> Inl (ErrURL u err)
           | Inr url \<Rightarrow>
               if frag = [] then Inr url
               else (case setFragment url frag of
                       Inl err \<Rightarrow> Inl (ErrURL rawURL err)
                     | Inr url \<Rightarrow> Inr url)))"

text \<open>
  \<open>url.Values\<close> is \<open>map[string][]string\<close>. The model keeps the entries in a list with
  one entry per key, in the order in which the keys were first added; Go leaves the
  order of a \<open>range\<close> over a map open.
\<close>

type_synonym Values = "(string \<times> string list) list"

text \<open>\<open>m[key] = append(m[key], value)\<close>\<close>

definition Values_append :: "Values \<Rightarrow> string \<Rightarrow> string \<Rightarrow> Values" where
  "Values_append m key v =
     (case map_of m key of
        None \<Rightarrow> m @ [(key, [v])]
      | Some vs \<Rightarrow> map (\<lambda>(k, vs). if k = key then (k, vs @ [v]) else (k, vs)) m)"

text \<open>\<open>Values.Get\<close>: the first value of \<open>key\<close>, or the empty string.\<close>

definition Values_Get :: "Values \<Rightarrow> string \<Rightarrow> string" where
  "Values_Get v key =
     (case map_of v key of
        None \<Rightarrow> []
      | Some vs \<Rightarrow> if length vs = 0 then [] else hd vs)"

text \<open>\<open>Values.Del\<close>: \<open>delete(v, key)\<close>\<close>

definition Values_Del :: "Values \<Rightarrow> string \<Rightarrow> Values" where
  "Values_Del v key = filter (\<lambda>(k, vs). k \<noteq> key) v"

lemma Cut_rest_shorter:
  "(key, rest, found) = Cut query sep \<Longrightarrow> query \<noteq> [] \<Longrightarrow> sep \<noteq> [] \<Longrightarrow>
   length rest < length query"
  by (auto simp: Cut_def split: option.splits dest: Index_Some_shorter)

text \<open>\<open>parseQuery(m, query)\<close>: the pairs \<open>key=value\<close> between the \<open>&\<close>. A pair with a
  semicolon or a bad escape is skipped, and the first such error is returned beside the
  map.\<close>

function parseQuery :: "Values \<Rightarrow> url_error option \<Rightarrow> string \<Rightarrow> Values \<times> url_error option" where
  "parseQuery m err query =
     (if query = [] then (m, err)
      else case Cut query ''&'' of
        (key, query, _) \<Rightarrow>
          if Contains key '';'' then parseQuery m (Some InvalidSemicolon) query
          else if key = [] then parseQuery m err query
          else case Cut key ''='' of
            (key, value, _) \<Rightarrow>
              (case QueryUnescape key of
                 Inl err1 \<Rightarrow> parseQuery m (if err = None then Some err1 else err) query
               | Inr key \<Rightarrow>
                   (case QueryUnescape value of
                      Inl err1 \<Rightarrow> parseQuery m (if err = None then Some err1 else err) query
                    | Inr value \<Rightarrow> parseQuery (Values_append m key value) err query)))"
  by pat_completeness auto
termination
  by (relation "measure (\<lambda>(m, err, query). length query)")
     (auto dest: Cut_rest_shorter)

declare parseQuery.simps [simp del]

definition ParseQuery :: "string \<Rightarrow> Values \<times> url_error option" where
  "ParseQuery query = parseQuery [] None query"

text \<open>\<open>URL.Query\<close>: the parsed \<open>RawQuery\<close>; the error of \<open>ParseQuery\<close> is dropped.\<close>

definition URL_Query :: "URL \<Rightarrow> Values" where
  "URL_Query u = fst (ParseQuery (RawQuery u))"

section \<open>Package rdb: isolation levels\<close>

text \<open>
  \<open>type Isolation byte\<close>. The eight constants are declared in one \<open>const\<close> block whose
  first line is \<open>IsoDefault Isolation = iota\<close>; every later line repeats that
  expression, and \<open>iota\<close> is the index of the line in the block.
\<close>

type_synonym Isolation = "8 word"

definition Isolation_block :: "string list" where
  "Isolation_block =
     [''IsoDefault'', ''IsoReadUncommited'', ''IsoReadCommited'', ''IsoWriteCommited'',
      ''IsoRepeatableRead'', ''IsoSerializable'', ''IsoSnapshot'', ''IsoLinearizable'']"

text \<open>The value of a name of a \<open>const\<close> block of type \<open>Isolation\<close> whose lines are all
  \<open>= iota\<close>: the position of its line (0 for a name that the block does not declare).\<close>

fun iota_of :: "string list \<Rightarrow> string \<Rightarrow> nat \<Rightarrow> Isolation" where
  "iota_of [] name iota = 0"
| "iota_of (n # ns) name iota = (if n = name then of_nat iota else iota_of ns name (iota + 1))"

definition IsoDefault :: Isolation where
  "IsoDefault = iota_of Isolation_block ''IsoDefault'' 0"

definition IsoReadUncommited :: Isolation where
  "IsoReadUncommited = iota_of Isolation_block ''IsoReadUncommited'' 0"

definition IsoReadCommited :: Isolation where
  "IsoReadCommited = iota_of Isolation_block ''IsoReadCommited'' 0"

definition IsoWriteCommited :: Isolation where
  "IsoWriteCommited = iota_of Isolation_block ''IsoWriteCommited'' 0"

definition IsoRepeatableRead :: Isolation where
  "IsoRepeatableRead = iota_of Isolation_block ''IsoRepeatableRead'' 0"

definition IsoSerializable :: Isolation where
  "IsoSerializable = iota_of Isolation_block ''IsoSerializable'' 0"

definition IsoSnapshot :: Isolation where
  "IsoSnapshot = iota_of Isolation_block ''IsoSnapshot'' 0"

definition IsoLinearizable :: Isolation where
  "IsoLinearizable = iota_of Isolation_block ''IsoLinearizable'' 0"

section \<open>Package rdb: Config and ParseConfigURL\<close>

text \<open>
  \<open>Config\<close>, field by field. \<open>Port\<close> and the two capacities are Go \<open>int\<close>s,
  \<open>PoolIdleTimeout\<close> is a \<open>time.Duration\<close> (nanoseconds). \<open>KV\<close> is a
  \<open>map[string]interface{}\<close>, kept as an association list with one entry per key:
  \<open>None\<close> is the nil map, which can be read but not assigned to; the values stored by
  \<open>ParseConfigURL\<close> are the \<open>[]string\<close> of a query key.
\<close>

record Config =
  DriverName :: string
  Raw :: string
  Username :: string
  Password :: string
  Hostname :: string
  Port :: int
  Instance :: string
  Database :: string
  PoolIdleTimeout :: int
  PoolInitCapacity :: int
  PoolMaxCapacity :: int
  Secure :: bool
  InsecureSkipVerify :: bool
  KV :: "(string \<times> string list) list option"

text \<open>The composite literal \<open>&Config{DriverName: ..., Raw: ..., Username: ..., Password:
  ..., Hostname: ..., Port: ...}\<close>: every field that is not named has its zero value.\<close>

definition Config_literal :: "string \<Rightarrow> string \<Rightarrow> string \<Rightarrow> string \<Rightarrow> string \<Rightarrow> int \<Rightarrow> Config" where
  "Config_literal driverName raw user pass host port =
     \<lparr>DriverName = driverName, Raw = raw, Username = user, Password = pass,
      Hostname = host, Port = port, Instance = [], Database = [],
      PoolIdleTimeout = 0, PoolInitCapacity = 0, PoolMaxCapacity = 0,
      Secure = False, InsecureSkipVerify = False, KV = None\<rparr>"

text \<open>The last loop, \<open>for key, value := range val { conf.KV[key] = value }\<close>: an
  assignment to an entry of a nil map panics.\<close>

fun range_val :: "Config \<Rightarrow> Values \<Rightarrow> Config exec" where
  "range_val conf [] = Returns conf"
| "range_val conf ((key, value) # val) =
     (case KV conf of
        None \<Rightarrow> Panics ''assignment to entry in nil map''
      | Some kv \<Rightarrow> range_val (conf\<lparr>KV := Some (AList.update key value kv)\<rparr>) val)"

text \<open>
  \<open>ParseConfigURL(connectionString)\<close>, statement by statement. The result is the pair
  \<open>(*Config, error)\<close> that the function returns, \<open>None\<close> for \<open>nil\<close>, or the panic
  that ends it. \<open>hostPort[0]\<close> and \<open>hostPort[1]\<close> are read by pattern, an index
  outside the slice being a panic.
\<close>

definition ParseConfigURL :: "fracNanos \<Rightarrow> string \<Rightarrow> (Config option \<times> error option) exec" where
  "ParseConfigURL fr connectionString =
     (case url_Parse connectionString of
        Inl err \<Rightarrow> Returns (None, Some err)
      | Inr u \<Rightarrow>
          let user = (if User u \<noteq> None then Userinfo_Username (User u) else []);
              pass = (if User u \<noteq> None then fst (Userinfo_Password (User u)) else [])
          in case (if length (Host u) > 0 then
                     (case Split (Host u) '':'' of
                        [] \<Rightarrow> Panics ''index out of range [0] with length 0''
                      | host # ports \<Rightarrow>
                          if length (host # ports) > 1 then
                            (case ParseUint10 (hd ports) 16 of
                               (parsedPort, Some err) \<Rightarrow> Returns (Inl err)
                             | (parsedPort, None) \<Rightarrow> Returns (Inr (host, int parsedPort)))
                          else Returns (Inr (host, 0)))
                   else Returns (Inr ([], 0))) of
               Panics msg \<Rightarrow> Panics msg
             | Returns (Inl err) \<Rightarrow> Returns (None, Some err)
             | Returns (Inr (host, port)) \<Rightarrow>
                 let conf = Config_literal (Scheme u) connectionString user pass host port;
                     val = URL_Query u;
                     conf = conf\<lparr>Database := Values_Get val ''db''\<rparr>;
                     val = Values_Del val ''db'';
                     st = Values_Get val ''idle_timeout'';
                     (d, err) = (if length st \<noteq> 0 then ParseDuration fr st
                                 else (PoolIdleTimeout conf, None))
                 in if err \<noteq> None then Returns (None, err)
                    else
                      let conf = conf\<lparr>PoolIdleTimeout := d\<rparr>;
                          val = Values_Del val ''idle_timeout'';
                          st = Values_Get val ''init_cap'';
                          (n, err) = (if length st \<noteq> 0 then Atoi st
                                      else (PoolInitCapacity conf, None))
                      in if err \<noteq> None then Returns (None, err)
                         else
                           let conf = conf\<lparr>PoolInitCapacity := n\<rparr>;
                               val = Values_Del val ''init_cap'';
                               st = Values_Get val ''max_cap'';
                               (n, err) = (if length st \<noteq> 0 then Atoi st
                                           else (PoolMaxCapacity conf, None))
                           in if err \<noteq> None then Returns (None, err)
                              else
                                let conf = conf\<lparr>PoolMaxCapacity := n\<rparr>;
                                    val = Values_Del val ''max_cap'';
                                    conf = (if length (Path u) > 0
                                            then conf\<lparr>Instance := drop 1 (Path u)\<rparr>
                                            else conf)
                                in case range_val conf val of
                                     Panics msg \<Rightarrow> Panics msg
                                   | Returns conf \<Rightarrow> Returns (Some conf, None))"

section \<open>ParseConfigURL block by block\<close>

text \<open>
  For the proofs, the body of \<open>ParseConfigURL\<close> is read as two blocks: the lines from
  \<open>port := 0\<close> to the end of \<open>if len(u.Host) > 0\<close> (\<open>hostPort_block\<close>), and the
  lines from \<open>val := u.Query()\<close> to the final \<open>return\<close> (\<open>options_block\<close>).
  \<open>ParseConfigURL_blocks\<close> shows that the function is these two blocks in sequence.
\<close>

definition hostPort_block :: "string \<Rightarrow> (error + string \<times> int) exec" where
  "hostPort_block h =
     (if length h > 0 then
        (case Split h '':'' of
           [] \<Rightarrow> Panics ''index out of range [0] with length 0''
         | host # ports \<Rightarrow>
             if length (host # ports) > 1 then
               (case ParseUint10 (hd ports) 16 of
                  (parsedPort, Some err) \<Rightarrow> Returns (Inl err)
                | (parsedPort, None) \<Rightarrow> Returns (Inr (host, int parsedPort)))
             else Returns (Inr (host, 0)))
      else Returns (Inr ([], 0)))"

definition options_block ::
    "fracNanos \<Rightarrow> Config \<Rightarrow> Values \<Rightarrow> string \<Rightarrow> (Config option \<times> error option) exec" where
  "options_block fr conf0 val0 path =
     (let conf = conf0\<lparr>Database := Values_Get val0 ''db''\<rparr>;
          val = Values_Del val0 ''db'';
          st = Values_Get val ''idle_timeout'';
          (d, err) = (if length st \<noteq> 0 then ParseDuration fr st
                      else (PoolIdleTimeout conf, None))
      in if err \<noteq> None then Returns (None, err)
         else
           let conf = conf\<lparr>PoolIdleTimeout := d\<rparr>;
               val = Values_Del val ''idle_timeout'';
               st = Values_Get val ''init_cap'';
               (n, err) = (if length st \<noteq> 0 then Atoi st
                           else (PoolInitCapacity conf, None))
           in if err \<noteq> None then Returns (None, err)
              else
                let conf = conf\<lparr>PoolInitCapacity := n\<rparr>;
                    val = Values_Del val ''init_cap'';
                    st = Values_Get val ''max_cap'';
                    (n, err) = (if length st \<noteq> 0 then Atoi st
                                else (PoolMaxCapacity conf, None))
                in if err \<noteq> None then Returns (None, err)
                   else
                     let conf = conf\<lparr>PoolMaxCapacity := n\<rparr>;
                         val = Values_Del val ''max_cap'';
                         conf = (if length path > 0
                                 then conf\<lparr>Instance := drop 1 path\<rparr>
                                 else conf)
                     in case range_val conf val of
                          Panics msg \<Rightarrow> Panics msg
                        | Returns conf \<Rightarrow> Returns (Some conf, None))"

subsection \<open>The words of the claims\<close>

text \<open>
  About the host: \<open>first_segment\<close> is the text before the first colon,
  \<open>second_segment\<close> the text between the first and the second colon (or to the end),
  \<open>is_decimal\<close> a non-empty string of decimal digits and \<open>decimal_value\<close> the number
  it writes. About the query: \<open>recognized\<close> lists the four keys that have a field, and
  \<open>leftover\<close> is the query without them; \<open>option_cap\<close> is the integer that a
  capacity option stands for. About the result: \<open>pool_sizing_valid\<close> is the valid range
  that the comments of \<open>PoolInitCapacity\<close> and \<open>PoolMaxCapacity\<close> give, and
  \<open>KV_keys\<close> are the keys of the map \<open>KV\<close> (a nil map has none).
  \<open>fracNanos_exact\<close> is the floating-point parameter in exact arithmetic, for running
  the model on a connection string: no string used below has a fractional duration.
\<close>

definition first_segment :: "string \<Rightarrow> string" where
  "first_segment h = takeWhile (\<lambda>c. c \<noteq> CHR '':'') h"

definition second_segment :: "string \<Rightarrow> string" where
  "second_segment h = first_segment (drop 1 (dropWhile (\<lambda>c. c \<noteq> CHR '':'') h))"

definition decimal_value :: "string \<Rightarrow> nat" where
  "decimal_value p = foldl (\<lambda>n c. n * 10 + digitVal c) 0 p"

definition is_decimal :: "string \<Rightarrow> bool" where
  "is_decimal p = (p \<noteq> [] \<and> list_all isDigit p)"

definition recognized :: "string list" where
  "recognized = [''db'', ''idle_timeout'', ''init_cap'', ''max_cap'']"

definition leftover :: "Values \<Rightarrow> Values" where
  "leftover val = filter (\<lambda>(k, vs). k \<notin> set recognized) val"

definition option_cap :: "Values \<Rightarrow> string \<Rightarrow> int" where
  "option_cap q k = (if Values_Get q k = [] then 0 else fst (Atoi (Values_Get q k)))"

definition pool_sizing_valid :: "Config \<Rightarrow> bool" where
  "pool_sizing_valid c = (0 < PoolInitCapacity c \<and> PoolInitCapacity c \<le> PoolMaxCapacity c)"

definition KV_keys :: "Config \<Rightarrow> string set" where
  "KV_keys c = (case KV c of None \<Rightarrow> {} | Some kv \<Rightarrow> fst ` set kv)"

definition fracNanos_exact :: fracNanos where
  "fracNanos_exact f unit scale = f * unit div scale"

subsection \<open>The outcome in closed form\<close>

text \<open>
  The outcome of \<open>ParseConfigURL\<close> on a string that \<open>url.Parse\<close> accepts, in
  closed form: \<open>port_error\<close> is the error of the port, if any; \<open>option_error\<close> the
  first error among \<open>idle_timeout\<close>, \<open>init_cap\<close> and \<open>max_cap\<close>, in the order of
  the code; \<open>decoded\<close> the Config that is returned when there is no error and no key
  is left over.
\<close>

definition port_error :: "string \<Rightarrow> error option" where
  "port_error h =
     (if CHR '':'' \<in> set h
         \<and> \<not> (is_decimal (second_segment h) \<and> decimal_value (second_segment h) \<le> 65535)
      then snd (ParseUint10 (second_segment h) 16) else None)"

definition option_error :: "fracNanos \<Rightarrow> Values \<Rightarrow> error option" where
  "option_error fr q =
     (if Values_Get q ''idle_timeout'' \<noteq> []
         \<and> snd (ParseDuration fr (Values_Get q ''idle_timeout'')) \<noteq> None
      then snd (ParseDuration fr (Values_Get q ''idle_timeout''))
      else if Values_Get q ''init_cap'' \<noteq> [] \<and> snd (Atoi (Values_Get q ''init_cap'')) \<noteq> None
      then snd (Atoi (Values_Get q ''init_cap''))
      else if Values_Get q ''max_cap'' \<noteq> [] \<and> snd (Atoi (Values_Get q ''max_cap'')) \<noteq> None
      then snd (Atoi (Values_Get q ''max_cap''))
      else None)"

definition decoded :: "fracNanos \<Rightarrow> string \<Rightarrow> URL \<Rightarrow> Config" where
  "decoded fr s u =
     \<lparr>DriverName = Scheme u, Raw = s,
      Username = Userinfo_Username (User u),
      Password = fst (Userinfo_Password (User u)),
      Hostname = first_segment (Host u),
      Port = (if CHR '':'' \<in> set (Host u)
              then int (decimal_value (second_segment (Host u))) else 0),
      Instance = drop 1 (Path u),
      Database = Values_Get (URL_Query u) ''db'',
      PoolIdleTimeout =
        (if Values_Get (URL_Query u) ''idle_timeout'' \<noteq> []
         then fst (ParseDuration fr (Values_Get (URL_Query u) ''idle_timeout'')) else 0),
      PoolInitCapacity =
        (if Values_Get (URL_Query u) ''init_cap'' \<noteq> []
         then fst (Atoi (Values_Get (URL_Query u) ''init_cap'')) else 0),
      PoolMaxCapacity =
        (if Values_Get (URL_Query u) ''max_cap'' \<noteq> []
         then fst (Atoi (Values_Get (URL_Query u) ''max_cap'')) else 0),
      Secure = False, InsecureSkipVerify = False, KV = None\<rparr>"

text \<open>\<open>parse_rest\<close> is \<open>parse\<close> from the point where the scheme and the query have
  been cut off: what it does with the rest, the authority and the path.\<close>

definition parse_rest :: "string \<Rightarrow> URL \<Rightarrow> url_error + URL" where
  "parse_rest rest url =
    (if \<not> HasPrefix rest ''/'' \<and> Scheme url \<noteq> [] then Inr (url\<lparr>Opaque := rest\<rparr>)
     else if \<not> HasPrefix rest ''/'' \<and> Contains (fst (Cut rest ''/'')) '':''
       then Inl FirstPathSegmentColon
     else if (Scheme url \<noteq> [] \<or> \<not> HasPrefix rest ''///'') \<and> HasPrefix rest ''//'' then
       (let authority = drop 2 rest;
            (authority, rest) =
              (case Index authority ''/'' of
                 Some i \<Rightarrow> (take i authority, drop i authority)
               | None \<Rightarrow> (authority, []))
        in case parseAuthority authority of
             Inl err \<Rightarrow> Inl err
           | Inr (user, host) \<Rightarrow> setPath (url\<lparr>User := user, Host := host\<rparr>) rest)
     else if Scheme url \<noteq> [] \<and> HasPrefix rest ''/'' then
       setPath (url\<lparr>OmitHost := True\<rparr>) rest
     else setPath url rest)"

subsection \<open>Splitting the host at its colons\<close>

lemma Index_byte:
  "Index s [c] = (if c \<in> set s then Some (length (takeWhile (\<lambda>x. x \<noteq> c) s)) else None)"
  by (induction s) (auto simp: HasPrefix_def)

lemma Split_no_sep: "c \<notin> set s \<Longrightarrow> Split s [c] = [s]"
  by (subst Split.simps) (simp add: Index_byte)

lemma Split_sep:
  assumes "c \<in> set s"
  shows "Split s [c] =
           takeWhile (\<lambda>x. x \<noteq> c) s # Split (drop 1 (dropWhile (\<lambda>x. x \<noteq> c) s)) [c]"
proof -
  let ?P = "\<lambda>x. x \<noteq> c"
  let ?i = "length (takeWhile ?P s)"
  have t: "take ?i s = takeWhile ?P s"
    by (rule takeWhile_eq_take [symmetric])
  have "drop 1 (dropWhile ?P s) = drop 1 (drop ?i s)"
    by (simp only: dropWhile_eq_drop)
  then have d: "drop (Suc ?i) s = drop 1 (dropWhile ?P s)"
    by simp
  show ?thesis
    using assms by (subst Split.simps) (simp add: Index_byte t d)
qed

lemma takeWhile_no_sep: "c \<notin> set s \<Longrightarrow> takeWhile (\<lambda>x. x \<noteq> c) s = s"
  by (induction s) auto

lemma Split_hd: "hd (Split s [c]) = takeWhile (\<lambda>x. x \<noteq> c) s"
  by (cases "c \<in> set s") (simp_all add: Split_sep Split_no_sep takeWhile_no_sep)

lemma Split_not_Nil: "Split s [c] \<noteq> []"
  by (cases "c \<in> set s") (simp_all add: Split_sep Split_no_sep)

lemma Split_colon:
  "Split h '':'' =
     (if CHR '':'' \<in> set h
      then first_segment h # second_segment h # tl (Split (drop 1 (dropWhile (\<lambda>x. x \<noteq> CHR '':'') h)) '':'')
      else [h])"
proof (cases "CHR '':'' \<in> set h")
  case True
  let ?r = "drop 1 (dropWhile (\<lambda>x. x \<noteq> CHR '':'') h)"
  have "Split ?r '':'' = hd (Split ?r '':'') # tl (Split ?r '':'')"
    using Split_not_Nil [of ?r "CHR '':''"] by simp
  then have "Split ?r '':'' = second_segment h # tl (Split ?r '':'')"
    by (simp add: Split_hd second_segment_def first_segment_def)
  with True show ?thesis
    using Split_sep [of "CHR '':''" h] by (simp add: first_segment_def)
next
  case False
  then show ?thesis by (simp add: Split_no_sep)
qed

lemma first_segment_no_colon: "CHR '':'' \<notin> set h \<Longrightarrow> first_segment h = h"
  by (simp add: first_segment_def takeWhile_no_sep)

lemma first_segment_has_no_colon: "CHR '':'' \<notin> set (first_segment h)"
  by (auto simp: first_segment_def dest: set_takeWhileD)

lemma second_segment_no_colon: "CHR '':'' \<notin> set (second_segment h)"
  by (simp add: second_segment_def first_segment_has_no_colon)

lemma first_segment_append:
  "CHR '':'' \<notin> set a \<Longrightarrow> first_segment (a @ CHR '':'' # b) = a"
  by (induction a) (auto simp: first_segment_def)

lemma second_segment_append:
  "CHR '':'' \<notin> set a \<Longrightarrow> CHR '':'' \<notin> set b \<Longrightarrow> second_segment (a @ CHR '':'' # b) = b"
  by (induction a) (auto simp: second_segment_def first_segment_no_colon)

subsection \<open>ParseUint on 16 bits\<close>

lemma isDigit_digitVal: "isDigit c \<Longrightarrow> digitVal c \<le> 9"
  by (simp add: isDigit_def digitVal_def less_eq_char_def, arith)

lemma decimal_fold_mono: "n \<le> foldl (\<lambda>n c. n * 10 + digitVal c) n cs"
proof (induction cs arbitrary: n)
  case Nil
  show ?case by simp
next
  case (Cons c cs)
  have "n \<le> n * 10 + digitVal c" by simp
  also have "\<dots> \<le> foldl (\<lambda>n c. n * 10 + digitVal c) (n * 10 + digitVal c) cs"
    by (rule Cons.IH)
  finally show ?case by simp
qed

lemma ParseUint_loop_16_ok:
  "n \<le> 65535 \<Longrightarrow> list_all isDigit cs \<Longrightarrow>
   foldl (\<lambda>n c. n * 10 + digitVal c) n cs \<le> 65535 \<Longrightarrow>
   ParseUint_loop s0 65535 n cs = (foldl (\<lambda>n c. n * 10 + digitVal c) n cs, None)"
proof (induction cs arbitrary: n)
  case Nil
  then show ?case by simp
next
  case (Cons c cs)
  let ?n1 = "n * 10 + digitVal c"
  from Cons.prems have dig: "isDigit c" and rest: "list_all isDigit cs" by simp_all
  have "?n1 \<le> foldl (\<lambda>n c. n * 10 + digitVal c) ?n1 cs"
    by (rule decimal_fold_mono)
  with Cons.prems have n1: "?n1 \<le> 65535" by simp
  with Cons.prems have "ParseUint_loop s0 65535 n (c # cs) = ParseUint_loop s0 65535 ?n1 cs"
    using dig by (simp add: maxUint64_def Let_def)
  also have "\<dots> = (foldl (\<lambda>n c. n * 10 + digitVal c) ?n1 cs, None)"
    using n1 rest Cons.prems by (intro Cons.IH) simp_all
  finally show ?case by simp
qed

lemma ParseUint_loop_16_err:
  "n \<le> 65535 \<Longrightarrow>
   \<not> (list_all isDigit cs \<and> foldl (\<lambda>n c. n * 10 + digitVal c) n cs \<le> 65535) \<Longrightarrow>
   snd (ParseUint_loop s0 65535 n cs) \<noteq> None"
proof (induction cs arbitrary: n)
  case Nil
  then show ?case by simp
next
  case (Cons c cs)
  let ?n1 = "n * 10 + digitVal c"
  show ?case
  proof (cases "isDigit c \<and> ?n1 \<le> 65535")
    case True
    with Cons.prems have "ParseUint_loop s0 65535 n (c # cs) = ParseUint_loop s0 65535 ?n1 cs"
      by (simp add: maxUint64_def Let_def)
    moreover have "snd (ParseUint_loop s0 65535 ?n1 cs) \<noteq> None"
      using True Cons.prems by (intro Cons.IH) simp_all
    ultimately show ?thesis by simp
  next
    case False
    show ?thesis
    proof (cases "isDigit c")
      case True
      with Cons.prems(1) isDigit_digitVal [of c] have "?n1 < 2 ^ 64" by simp
      then have "?n1 mod 2 ^ 64 = ?n1" by simp
      with True False Cons.prems(1) show ?thesis
        by (simp add: maxUint64_def Let_def)
    next
      case False
      then show ?thesis by simp
    qed
  qed
qed

lemma ParseUint10_16:
  "ParseUint10 p 16 =
     (if is_decimal p \<and> decimal_value p \<le> 65535 then (decimal_value p, None)
      else (fst (ParseUint10 p 16), Some (the (snd (ParseUint10 p 16)))))"
proof (cases "is_decimal p \<and> decimal_value p \<le> 65535")
  case True
  then show ?thesis
    using ParseUint_loop_16_ok [of 0 p p]
    by (simp add: ParseUint10_def is_decimal_def decimal_value_def)
next
  case False
  have "snd (ParseUint10 p 16) \<noteq> None"
  proof (cases "p = []")
    case True
    then show ?thesis by (simp add: ParseUint10_def)
  next
    case False
    with \<open>\<not> (is_decimal p \<and> decimal_value p \<le> 65535)\<close> show ?thesis
      using ParseUint_loop_16_err [of 0 p p]
      by (simp add: ParseUint10_def is_decimal_def decimal_value_def)
  qed
  with False show ?thesis by (auto simp: prod_eq_iff)
qed

subsection \<open>The two blocks\<close>

lemma hostPort_block_eq:
  "hostPort_block h =
     (if CHR '':'' \<notin> set h then Returns (Inr (h, 0))
      else if is_decimal (second_segment h) \<and> decimal_value (second_segment h) \<le> 65535
        then Returns (Inr (first_segment h, int (decimal_value (second_segment h))))
      else Returns (Inl (the (snd (ParseUint10 (second_segment h) 16)))))"
proof (cases "CHR '':'' \<in> set h")
  case False
  then show ?thesis
    by (cases h) (simp_all add: hostPort_block_def Split_colon)
next
  case True
  then have ne: "h \<noteq> []" by auto
  let ?p = "second_segment h"
  show ?thesis
  proof (cases "is_decimal ?p \<and> decimal_value ?p \<le> 65535")
    case True
    then have "ParseUint10 ?p 16 = (decimal_value ?p, None)"
      by (subst ParseUint10_16) simp
    with True \<open>CHR '':'' \<in> set h\<close> ne show ?thesis
      by (simp add: hostPort_block_def Split_colon)
  next
    case False
    then have "ParseUint10 ?p 16 = (fst (ParseUint10 ?p 16), Some (the (snd (ParseUint10 ?p 16))))"
      by (subst ParseUint10_16) simp
    then obtain v e where "ParseUint10 ?p 16 = (v, Some e)"
      by blast
    with False \<open>CHR '':'' \<in> set h\<close> ne show ?thesis
      by (simp add: hostPort_block_def Split_colon)
  qed
qed

lemma hostPort_block_two_segments:
  assumes "CHR '':'' \<in> set h"
  shows "hostPort_block h = hostPort_block (first_segment h @ CHR '':'' # second_segment h)"
proof -
  let ?h' = "first_segment h @ CHR '':'' # second_segment h"
  have 1: "first_segment ?h' = first_segment h"
    by (rule first_segment_append) (rule first_segment_has_no_colon)
  have 2: "second_segment ?h' = second_segment h"
    by (rule second_segment_append) (rule first_segment_has_no_colon, rule second_segment_no_colon)
  have 3: "CHR '':'' \<in> set ?h'" by simp
  show ?thesis
    unfolding hostPort_block_eq [of h] hostPort_block_eq [of ?h'] 1 2
    using assms 3 by (simp only: if_False not_not simp_thms)
qed

lemma Userinfo_nil_safe:
  "(if x \<noteq> None then Userinfo_Username x else []) = Userinfo_Username x"
  "(if x \<noteq> None then fst (Userinfo_Password x) else []) = fst (Userinfo_Password x)"
  by (simp_all add: Userinfo_Username_def Userinfo_Password_def)

lemma ParseConfigURL_blocks:
  "ParseConfigURL fr s =
     (case url_Parse s of
        Inl err \<Rightarrow> Returns (None, Some err)
      | Inr u \<Rightarrow>
          (case hostPort_block (Host u) of
             Panics msg \<Rightarrow> Panics msg
           | Returns (Inl err) \<Rightarrow> Returns (None, Some err)
           | Returns (Inr (host, port)) \<Rightarrow>
               options_block fr
                 (Config_literal (Scheme u) s (Userinfo_Username (User u))
                    (fst (Userinfo_Password (User u))) host port)
                 (URL_Query u) (Path u)))"
  unfolding ParseConfigURL_def hostPort_block_def options_block_def Let_def Userinfo_nil_safe
  by (rule refl)

lemma range_val_nil_map:
  "KV conf = None \<Longrightarrow>
   range_val conf val =
     (if val = [] then Returns conf else Panics ''assignment to entry in nil map'')"
  by (cases val) auto

lemma map_of_Values_Del:
  "map_of (Values_Del v key) k = (if k = key then None else map_of v k)"
  by (induction v) (auto simp: Values_Del_def)

lemma Values_Get_Del: "k \<noteq> key \<Longrightarrow> Values_Get (Values_Del v key) k = Values_Get v k"
  by (simp add: Values_Get_def map_of_Values_Del)

lemma Values_Del_all:
  "Values_Del (Values_Del (Values_Del (Values_Del val ''db'') ''idle_timeout'') ''init_cap'')
     ''max_cap'' = leftover val"
  by (induction val) (auto simp: Values_Del_def leftover_def recognized_def)

lemma options_block_eq:
  assumes "KV conf0 = None"
  shows "options_block fr conf0 val path =
     (if Values_Get val ''idle_timeout'' \<noteq> []
          \<and> snd (ParseDuration fr (Values_Get val ''idle_timeout'')) \<noteq> None
        then Returns (None, snd (ParseDuration fr (Values_Get val ''idle_timeout'')))
      else if Values_Get val ''init_cap'' \<noteq> [] \<and> snd (Atoi (Values_Get val ''init_cap'')) \<noteq> None
        then Returns (None, snd (Atoi (Values_Get val ''init_cap'')))
      else if Values_Get val ''max_cap'' \<noteq> [] \<and> snd (Atoi (Values_Get val ''max_cap'')) \<noteq> None
        then Returns (None, snd (Atoi (Values_Get val ''max_cap'')))
      else if leftover val \<noteq> [] then Panics ''assignment to entry in nil map''
      else Returns
        (Some (conf0\<lparr>
           Instance := (if path \<noteq> [] then drop 1 path else Instance conf0),
           Database := Values_Get val ''db'',
           PoolIdleTimeout :=
             (if Values_Get val ''idle_timeout'' \<noteq> []
              then fst (ParseDuration fr (Values_Get val ''idle_timeout''))
              else PoolIdleTimeout conf0),
           PoolInitCapacity :=
             (if Values_Get val ''init_cap'' \<noteq> [] then fst (Atoi (Values_Get val ''init_cap''))
              else PoolInitCapacity conf0),
           PoolMaxCapacity :=
             (if Values_Get val ''max_cap'' \<noteq> [] then fst (Atoi (Values_Get val ''max_cap''))
              else PoolMaxCapacity conf0)\<rparr>),
         None))"
  using assms
  by (simp add: options_block_def Let_def Values_Get_Del Values_Del_all range_val_nil_map
        split: prod.splits)

lemma Values_Get_absent: "k \<notin> fst ` set q \<Longrightarrow> Values_Get q k = []"
  by (simp add: Values_Get_def map_of_eq_None_iff [THEN iffD2])

subsection \<open>The outcome of ParseConfigURL\<close>

lemma ParseConfigURL_Inl:
  "url_Parse s = Inl err \<Longrightarrow> ParseConfigURL fr s = Returns (None, Some err)"
  by (simp add: ParseConfigURL_blocks)

lemma ParseConfigURL_Inr:
  assumes "url_Parse s = Inr u"
  shows "ParseConfigURL fr s =
     (if CHR '':'' \<in> set (Host u)
         \<and> \<not> (is_decimal (second_segment (Host u))
              \<and> decimal_value (second_segment (Host u)) \<le> 65535)
      then Returns (None, Some (the (snd (ParseUint10 (second_segment (Host u)) 16))))
      else options_block fr
             (Config_literal (Scheme u) s (Userinfo_Username (User u))
                (fst (Userinfo_Password (User u))) (first_segment (Host u))
                (if CHR '':'' \<in> set (Host u)
                 then int (decimal_value (second_segment (Host u))) else 0))
             (URL_Query u) (Path u))"
  using assms
  by (simp add: ParseConfigURL_blocks hostPort_block_eq first_segment_no_colon)

lemma port_error_Some:
  "CHR '':'' \<in> set h \<Longrightarrow>
   \<not> (is_decimal (second_segment h) \<and> decimal_value (second_segment h) \<le> 65535) \<Longrightarrow>
   \<exists>e. port_error h = Some e"
  using ParseUint10_16 [of "second_segment h"]
  by (auto simp: port_error_def prod_eq_iff)

lemma port_error_None:
  "port_error h = None \<longleftrightarrow>
     (CHR '':'' \<in> set h \<longrightarrow>
        is_decimal (second_segment h) \<and> decimal_value (second_segment h) \<le> 65535)"
  using port_error_Some [of h] by (auto simp: port_error_def)

lemma option_error_None:
  "option_error fr q = None \<longleftrightarrow>
     (Values_Get q ''idle_timeout'' \<noteq> [] \<longrightarrow> snd (ParseDuration fr (Values_Get q ''idle_timeout'')) = None)
   \<and> (Values_Get q ''init_cap'' \<noteq> [] \<longrightarrow> snd (Atoi (Values_Get q ''init_cap'')) = None)
   \<and> (Values_Get q ''max_cap'' \<noteq> [] \<longrightarrow> snd (Atoi (Values_Get q ''max_cap'')) = None)"
  by (auto simp: option_error_def)

lemma options_block_outcome:
  assumes kv: "KV conf0 = None"
  shows "options_block fr conf0 q path =
     (if option_error fr q \<noteq> None then Returns (None, option_error fr q)
      else if leftover q \<noteq> [] then Panics ''assignment to entry in nil map''
      else Returns
        (Some (conf0\<lparr>
           Instance := (if path \<noteq> [] then drop 1 path else Instance conf0),
           Database := Values_Get q ''db'',
           PoolIdleTimeout :=
             (if Values_Get q ''idle_timeout'' \<noteq> []
              then fst (ParseDuration fr (Values_Get q ''idle_timeout''))
              else PoolIdleTimeout conf0),
           PoolInitCapacity :=
             (if Values_Get q ''init_cap'' \<noteq> [] then fst (Atoi (Values_Get q ''init_cap''))
              else PoolInitCapacity conf0),
           PoolMaxCapacity :=
             (if Values_Get q ''max_cap'' \<noteq> [] then fst (Atoi (Values_Get q ''max_cap''))
              else PoolMaxCapacity conf0)\<rparr>),
         None))"
proof -
  let ?D = "Values_Get q ''idle_timeout'' \<noteq> []
              \<and> snd (ParseDuration fr (Values_Get q ''idle_timeout'')) \<noteq> None"
  let ?I = "Values_Get q ''init_cap'' \<noteq> [] \<and> snd (Atoi (Values_Get q ''init_cap'')) \<noteq> None"
  let ?M = "Values_Get q ''max_cap'' \<noteq> [] \<and> snd (Atoi (Values_Get q ''max_cap'')) \<noteq> None"
  consider (d) ?D | (i) "\<not> ?D" ?I | (m) "\<not> ?D" "\<not> ?I" ?M | (ok) "\<not> ?D" "\<not> ?I" "\<not> ?M"
    by blast
  then show ?thesis
  proof cases
    case d
    then show ?thesis
      by (auto simp: options_block_eq [OF kv] option_error_def)
  next
    case i
    then show ?thesis
      by (auto simp: options_block_eq [OF kv] option_error_def)
  next
    case m
    then show ?thesis
      by (auto simp: options_block_eq [OF kv] option_error_def)
  next
    case ok
    then show ?thesis
      by (auto simp: options_block_eq [OF kv] option_error_def)
  qed
qed

lemma ParseConfigURL_outcome:
  assumes "url_Parse s = Inr u"
  shows "ParseConfigURL fr s =
     (if port_error (Host u) \<noteq> None then Returns (None, port_error (Host u))
      else if option_error fr (URL_Query u) \<noteq> None
        then Returns (None, option_error fr (URL_Query u))
      else if leftover (URL_Query u) \<noteq> [] then Panics ''assignment to entry in nil map''
      else Returns (Some (decoded fr s u), None))"
proof (cases "CHR '':'' \<in> set (Host u)
         \<and> \<not> (is_decimal (second_segment (Host u))
              \<and> decimal_value (second_segment (Host u)) \<le> 65535)")
  case True
  then obtain e where "port_error (Host u) = Some e"
    using port_error_Some by blast
  moreover from this True have "the (snd (ParseUint10 (second_segment (Host u)) 16)) = e"
    by (simp add: port_error_def)
  ultimately show ?thesis
    using True by (simp add: ParseConfigURL_Inr [OF assms])
next
  case False
  then have pe: "port_error (Host u) = None"
    by (auto simp: port_error_def)
  have kv: "KV (Config_literal a b c d e f) = None" for a b c d e f
    by (simp add: Config_literal_def)
  have "ParseConfigURL fr s =
      options_block fr
             (Config_literal (Scheme u) s (Userinfo_Username (User u))
                (fst (Userinfo_Password (User u))) (first_segment (Host u))
                (if CHR '':'' \<in> set (Host u)
                 then int (decimal_value (second_segment (Host u))) else 0))
             (URL_Query u) (Path u)"
    using False by (simp only: ParseConfigURL_Inr [OF assms] if_False)
  also have "\<dots> =
     (if option_error fr (URL_Query u) \<noteq> None
        then Returns (None, option_error fr (URL_Query u))
      else if leftover (URL_Query u) \<noteq> [] then Panics ''assignment to entry in nil map''
      else Returns (Some (decoded fr s u), None))"
    unfolding options_block_outcome [OF kv]
    by (simp add: decoded_def Config_literal_def)
  finally show ?thesis
    using pe by simp
qed

lemma ParseConfigURL_Some:
  assumes "ParseConfigURL fr s = Returns (Some c, e)"
  obtains u where "url_Parse s = Inr u" and "c = decoded fr s u" and "e = None"
    and "port_error (Host u) = None" and "option_error fr (URL_Query u) = None"
    and "leftover (URL_Query u) = []"
proof (cases "url_Parse s")
  case (Inl err)
  with assms show ?thesis by (simp add: ParseConfigURL_Inl)
next
  case (Inr u)
  from assms show ?thesis
    unfolding ParseConfigURL_outcome [OF Inr]
    by (intro that [of u]) (auto simp: Inr split: if_splits)
qed

lemma ParseConfigURL_three_outcomes:
  "(\<exists>e. ParseConfigURL fr s = Returns (None, Some e))
   \<or> ParseConfigURL fr s = Panics ''assignment to entry in nil map''
   \<or> (\<exists>c. ParseConfigURL fr s = Returns (Some c, None))"
proof (cases "url_Parse s")
  case (Inl e)
  then show ?thesis by (simp add: ParseConfigURL_Inl)
next
  case (Inr u)
  show ?thesis
    unfolding ParseConfigURL_outcome [OF Inr]
    by (cases "port_error (Host u)"; cases "option_error fr (URL_Query u)";
        cases "leftover (URL_Query u) = []") simp_all
qed

subsection \<open>The path of a URL with a scheme\<close>

text \<open>\<open>url.Parse\<close> gives a URL that has a scheme a path that is empty or begins with
  \<open>/\<close>: without a leading \<open>/\<close> the text after the scheme is opaque, not a path.\<close>

lemma setPath_rooted:
  assumes "setPath url p = Inr u" and "p = [] \<or> hd p = CHR ''/''"
  shows "(Path u = [] \<or> hd (Path u) = CHR ''/'') \<and> Scheme u = Scheme url"
proof (cases p)
  case Nil
  with assms show ?thesis
    by (auto simp: setPath_def unescape_def split: option.splits)
next
  case (Cons c cs)
  with assms have "c = CHR ''/''" by simp
  with Cons assms(1) show ?thesis
    by (auto simp: setPath_def unescape_def split: option.splits)
qed

lemma Index_slash_rest:
  assumes "Index a ''/'' = Some i"
  shows "hd (drop i a) = CHR ''/''"
proof -
  let ?P = "\<lambda>x. x \<noteq> CHR ''/''"
  from assms have in_a: "CHR ''/'' \<in> set a" and i: "i = length (takeWhile ?P a)"
    by (auto simp: Index_byte split: if_splits)
  from in_a have "dropWhile ?P a \<noteq> []"
    by (auto simp: dropWhile_eq_Nil_conv)
  then have "\<not> ?P (hd (dropWhile ?P a))"
    by (rule hd_dropWhile)
  then show ?thesis
    by (simp add: i dropWhile_eq_drop [symmetric])
qed

lemma HasPrefix_slash2: "HasPrefix rest ''//'' \<Longrightarrow> HasPrefix rest ''/''"
  by (cases rest) (auto simp: HasPrefix_def)

lemma HasPrefix_slash: "HasPrefix rest ''/'' \<longleftrightarrow> rest \<noteq> [] \<and> hd rest = CHR ''/''"
  by (cases rest) (auto simp: HasPrefix_def)

lemma parse_rest_rooted:
  assumes p: "parse_rest rest url = Inr u" and sch: "Scheme u \<noteq> []" and empty: "Path url = []"
  shows "Path u = [] \<or> hd (Path u) = CHR ''/''"
proof (cases "HasPrefix rest ''/''")
  case False
  show ?thesis
  proof (cases "Scheme url = []")
    case True
    with False p have "setPath url rest = Inr u"
      using HasPrefix_slash2 [of rest] by (auto simp: parse_rest_def split: if_splits)
    then have "Scheme u = Scheme url"
      by (auto simp: setPath_def split: sum.splits)
    with True sch show ?thesis by simp
  next
    case nonempty: False
    with False p empty show ?thesis
      by (auto simp: parse_rest_def)
  qed
next
  case True
  then have r: "rest = [] \<or> hd rest = CHR ''/''" by (simp add: HasPrefix_slash)
  show ?thesis
  proof (cases "(Scheme url \<noteq> [] \<or> \<not> HasPrefix rest ''///'') \<and> HasPrefix rest ''//''")
    case False
    with True p have "setPath (url\<lparr>OmitHost := True\<rparr>) rest = Inr u \<or> setPath url rest = Inr u"
      by (auto simp: parse_rest_def split: if_splits)
    with r show ?thesis
      using setPath_rooted by blast
  next
    case auth: True
    define a where "a = drop 2 rest"
    define ar where "ar = (case Index a ''/'' of
               Some i \<Rightarrow> (take i a, drop i a)
             | None \<Rightarrow> (a, []))"
    obtain authority rest' where ar_eq: "ar = (authority, rest')" by (cases ar)
    have r': "rest' = [] \<or> hd rest' = CHR ''/''"
      using ar_eq by (auto simp: ar_def Index_slash_rest split: option.splits)
    from True auth p
    have "(case ar of (authority, rest) \<Rightarrow>
            case parseAuthority authority of
             Inl err \<Rightarrow> Inl err
           | Inr (user, host) \<Rightarrow> setPath (url\<lparr>User := user, Host := host\<rparr>) rest) = Inr u"
      unfolding parse_rest_def Let_def a_def ar_def by (simp only: if_True if_False simp_thms)
    then obtain user host where "setPath (url\<lparr>User := user, Host := host\<rparr>) rest' = Inr u"
      by (auto simp: ar_eq split: sum.splits)
    with r' show ?thesis
      using setPath_rooted by blast
  qed
qed

lemma parse_rooted:
  assumes "parse r = Inr u" and "Scheme u \<noteq> []"
  shows "Path u = [] \<or> hd (Path u) = CHR ''/''"
proof -
  from assms(1) have ctl: "\<not> stringContainsCTLByte r"
    by (auto simp: parse_def split: if_splits)
  from assms have star: "r \<noteq> ''*''"
    by (auto simp: parse_def newURL_def split: if_splits)
  from assms(1) ctl star obtain scheme rest0 where gs: "getScheme r = Inr (scheme, rest0)"
    by (cases "getScheme r") (auto simp: parse_def)
  define url0 where "url0 = newURL\<lparr>Scheme := ToLower scheme\<rparr>"
  have e0: "Path url0 = []" by (simp add: url0_def newURL_def)
  show ?thesis
  proof (cases "HasSuffix rest0 ''?'' \<and> Count rest0 ''?'' = 1")
    case True
    with ctl star gs
    have "parse r = parse_rest (take (length rest0 - 1) rest0) (url0\<lparr>ForceQuery := True\<rparr>)"
      unfolding parse_def parse_rest_def Let_def url0_def
      by (simp only: if_True if_False sum.case prod.case simp_thms)
    with assms e0 show ?thesis
      by (intro parse_rest_rooted [of _ "url0\<lparr>ForceQuery := True\<rparr>"]) simp_all
  next
    case False
    obtain r' q f where cut: "Cut rest0 ''?'' = (r', q, f)"
      by (cases "Cut rest0 ''?''") auto
    with False ctl star gs
    have "parse r = parse_rest r' (url0\<lparr>RawQuery := q\<rparr>)"
      unfolding parse_def parse_rest_def Let_def url0_def
      by (simp only: if_True if_False sum.case prod.case simp_thms)
    with assms e0 show ?thesis
      by (intro parse_rest_rooted [of _ "url0\<lparr>RawQuery := q\<rparr>"]) simp_all
  qed
qed

lemma url_Parse_rooted:
  assumes "url_Parse s = Inr u" and "Scheme u \<noteq> []"
  shows "Path u = [] \<or> hd (Path u) = CHR ''/''"
proof -
  obtain r frag found where cut: "Cut s ''#'' = (r, frag, found)"
    by (cases "Cut s ''#''") auto
  with assms(1) obtain u0 where u0: "parse r = Inr u0"
    and u: "u = u0 \<or> (\<exists>f. u = u0\<lparr>Fragment := f\<rparr>)"
    by (auto simp: url_Parse_def setFragment_def split: sum.splits if_splits)
  from u assms(2) have "Scheme u0 \<noteq> []" by auto
  from parse_rooted [OF u0 this] u show ?thesis by auto
qed

section \<open>Running the model\<close>

text \<open>The defining equations that the simplifier unfolds to run a function of the
  library on a concrete string.\<close>

lemmas strings_eval = HasPrefix_def HasSuffix_def Contains_def Cut_def ToLower_def lower_def
  Count.simps Split.simps char_of_def bit_0

lemmas strconv_eval = isDigit_def digitVal_def maxUint64_def ParseUint10_def ParseInt10_def Atoi_def

lemmas time_eval = Nanosecond_def Microsecond_def Millisecond_def Second_def Minute_def Hour_def
  unitMap_def ParseDuration_term_def ParseDuration_loop.simps ParseDuration_def

lemmas url_eval = isAlpha_def ishex_def unhex_def shouldEscape_def unescape_def QueryUnescape_def
  url_User_def url_UserPassword_def Userinfo_Username_def Userinfo_Password_def newURL_def
  stringContainsCTLByte_def getScheme_def validUserinfo_def validOptionalPort_def parseHost_def
  parseAuthority_def setPath_def setFragment_def parse_def url_Parse_def
  Values_append_def Values_Get_def Values_Del_def parseQuery.simps ParseQuery_def URL_Query_def

lemmas rdb_eval = ParseConfigURL_def Config_literal_def strings_eval strconv_eval time_eval url_eval

section \<open>The example connection string\<close>

lemma example_url:
  "url_Parse ''pg://alice:secret@db.example.com:5432/primary?db=app&init_cap=2&max_cap=10&idle_timeout=30s'' =
     Inr \<lparr>Scheme = ''pg'', Opaque = [],
          User = Some \<lparr>ui_username = ''alice'', ui_password = ''secret'', ui_passwordSet = True\<rparr>,
          Host = ''db.example.com:5432'', Path = ''/primary'', OmitHost = False,
          ForceQuery = False, RawQuery = ''db=app&init_cap=2&max_cap=10&idle_timeout=30s'',
          Fragment = []\<rparr>"
  by (simp add: strings_eval url_eval isDigit_def Let_def)

lemma example_query:
  "ParseQuery ''db=app&init_cap=2&max_cap=10&idle_timeout=30s'' =
     ([(''db'', [''app'']), (''init_cap'', [''2'']), (''max_cap'', [''10'']),
       (''idle_timeout'', [''30s''])], None)"
  by (simp add: strings_eval url_eval isDigit_def Let_def)

text \<open>
  C1. Decoding
  \<open>pg://alice:secret@db.example.com:5432/primary?db=app&init_cap=2&max_cap=10&idle_timeout=30s\<close>
  succeeds: \<open>ParseConfigURL\<close> returns a Config and a nil error, and the Config has
  Username \<open>alice\<close>, Password \<open>secret\<close>, Hostname \<open>db.example.com\<close>, Port 5432,
  Instance \<open>primary\<close>, Database \<open>app\<close>, PoolInitCapacity 2, PoolMaxCapacity 10 and a
  PoolIdleTimeout of 30 seconds (whatever the floating-point unit computes: the duration
  has no fraction).
\<close>

theorem ParseConfigURL_example:
  "ParseConfigURL fr ''pg://alice:secret@db.example.com:5432/primary?db=app&init_cap=2&max_cap=10&idle_timeout=30s'' =
     Returns
       (Some \<lparr>DriverName = ''pg'',
              Raw = ''pg://alice:secret@db.example.com:5432/primary?db=app&init_cap=2&max_cap=10&idle_timeout=30s'',
              Username = ''alice'', Password = ''secret'', Hostname = ''db.example.com'',
              Port = 5432, Instance = ''primary'', Database = ''app'',
              PoolIdleTimeout = 30 * Second, PoolInitCapacity = 2, PoolMaxCapacity = 10,
              Secure = False, InsecureSkipVerify = False, KV = None\<rparr>,
        None)"
  unfolding ParseConfigURL_def example_url
  by (simp add: URL_Query_def example_query strings_eval strconv_eval time_eval
        Config_literal_def Values_Get_def Values_Del_def Userinfo_Username_def
        Userinfo_Password_def Let_def)

section \<open>Isolation levels\<close>

text \<open>
  C4. The eight isolation levels have the consecutive ordinals 0 to 7 in the order
  Default = 0, ReadUncommitted = 1, ReadCommitted = 2, WriteCommitted = 3,
  RepeatableRead = 4, Serializable = 5, Snapshot = 6, Linearizable = 7.
\<close>

theorem Isolation_ordinals:
  "[IsoDefault, IsoReadUncommited, IsoReadCommited, IsoWriteCommited,
    IsoRepeatableRead, IsoSerializable, IsoSnapshot, IsoLinearizable]
     = [0, 1, 2, 3, 4, 5, 6, 7]
   \<and> map unat [IsoDefault, IsoReadUncommited, IsoReadCommited, IsoWriteCommited,
                IsoRepeatableRead, IsoSerializable, IsoSnapshot, IsoLinearizable]
     = [0 ..< 8]
   \<and> length Isolation_block = 8"
  by (simp add: IsoDefault_def IsoReadUncommited_def IsoReadCommited_def IsoWriteCommited_def
        IsoRepeatableRead_def IsoSerializable_def IsoSnapshot_def IsoLinearizable_def
        Isolation_block_def upt_rec)

section \<open>What a successful decode returns\<close>

text \<open>
  C9. For every connection string that is decoded successfully, the field \<open>Raw\<close> of
  the returned Config is the input string, character for character, and \<open>DriverName\<close>
  is the scheme of the parsed URL.
\<close>

theorem Raw_and_DriverName:
  assumes "ParseConfigURL fr s = Returns (Some c, None)"
  shows "Raw c = s \<and> (\<exists>u. url_Parse s = Inr u \<and> DriverName c = Scheme u)"
  using assms by (rule ParseConfigURL_Some) (simp add: decoded_def)

text \<open>An instance: the scheme is lower-cased by \<open>url.Parse\<close>, \<open>Raw\<close> keeps the
  input as it was written.\<close>

theorem Raw_and_DriverName_witness:
  "\<exists>c. ParseConfigURL fracNanos_exact ''PG://h/x'' = Returns (Some c, None)
       \<and> Raw c = ''PG://h/x''
       \<and> url_Parse ''PG://h/x''
           = Inr \<lparr>Scheme = ''pg'', Opaque = [], User = None, Host = ''h'', Path = ''/x'',
                  OmitHost = False, ForceQuery = False, RawQuery = [], Fragment = []\<rparr>
       \<and> DriverName c = ''pg''"
proof -
  let ?c = "\<lparr>DriverName = ''pg'', Raw = ''PG://h/x'', Username = [], Password = [],
             Hostname = ''h'', Port = 0, Instance = ''x'', Database = [], PoolIdleTimeout = 0,
             PoolInitCapacity = 0, PoolMaxCapacity = 0, Secure = False,
             InsecureSkipVerify = False, KV = None\<rparr>"
  have r: "ParseConfigURL fracNanos_exact ''PG://h/x'' = Returns (Some ?c, None)"
    by (simp add: rdb_eval Let_def)
  have u: "url_Parse ''PG://h/x''
           = Inr \<lparr>Scheme = ''pg'', Opaque = [], User = None, Host = ''h'', Path = ''/x'',
                  OmitHost = False, ForceQuery = False, RawQuery = [], Fragment = []\<rparr>"
    by (simp add: rdb_eval Let_def)
  from Raw_and_DriverName [OF r] r u show ?thesis
    by auto
qed

text \<open>
  C7. For every connection string that is decoded successfully, the recognized query
  options go to their fields: \<open>db\<close> to \<open>Database\<close>, \<open>init_cap\<close> to
  \<open>PoolInitCapacity\<close>, \<open>max_cap\<close> to \<open>PoolMaxCapacity\<close> (the integer that
  \<open>strconv.Atoi\<close> reads) and \<open>idle_timeout\<close> to \<open>PoolIdleTimeout\<close> (the duration that
  \<open>time.ParseDuration\<close> reads); none of the four keys is a key of the map \<open>KV\<close> of
  the returned Config; and the field of an option that is absent from the query keeps
  its zero value.
\<close>

theorem options_to_fields:
  assumes "ParseConfigURL fr s = Returns (Some c, None)" and "url_Parse s = Inr u"
  shows "Database c = Values_Get (URL_Query u) ''db''
    \<and> (if Values_Get (URL_Query u) ''init_cap'' = [] then PoolInitCapacity c = 0
       else Atoi (Values_Get (URL_Query u) ''init_cap'') = (PoolInitCapacity c, None))
    \<and> (if Values_Get (URL_Query u) ''max_cap'' = [] then PoolMaxCapacity c = 0
       else Atoi (Values_Get (URL_Query u) ''max_cap'') = (PoolMaxCapacity c, None))
    \<and> (if Values_Get (URL_Query u) ''idle_timeout'' = [] then PoolIdleTimeout c = 0
       else ParseDuration fr (Values_Get (URL_Query u) ''idle_timeout'') = (PoolIdleTimeout c, None))
    \<and> (\<forall>k \<in> set recognized. k \<notin> KV_keys c)
    \<and> (''db'' \<notin> fst ` set (URL_Query u) \<longrightarrow> Database c = [])
    \<and> (''init_cap'' \<notin> fst ` set (URL_Query u) \<longrightarrow> PoolInitCapacity c = 0)
    \<and> (''max_cap'' \<notin> fst ` set (URL_Query u) \<longrightarrow> PoolMaxCapacity c = 0)
    \<and> (''idle_timeout'' \<notin> fst ` set (URL_Query u) \<longrightarrow> PoolIdleTimeout c = 0)"
proof -
  from assms obtain c: "c = decoded fr s u" and oe: "option_error fr (URL_Query u) = None"
    by (auto elim: ParseConfigURL_Some)
  from oe show ?thesis
    unfolding option_error_None c
    by (simp add: decoded_def KV_keys_def Values_Get_absent prod_eq_iff)
qed

text \<open>An instance, with three of the four options present.\<close>

theorem options_to_fields_witness:
  "\<exists>c. ParseConfigURL fracNanos_exact ''pg://h/x?db=app&max_cap=10&idle_timeout=1m'' = Returns (Some c, None)
       \<and> Database c = ''app'' \<and> PoolInitCapacity c = 0 \<and> PoolMaxCapacity c = 10
       \<and> PoolIdleTimeout c = Minute \<and> KV_keys c = {}"
proof -
  let ?s = "''pg://h/x?db=app&max_cap=10&idle_timeout=1m''"
  let ?c = "\<lparr>DriverName = ''pg'', Raw = ?s, Username = [], Password = [],
             Hostname = ''h'', Port = 0, Instance = ''x'', Database = ''app'',
             PoolIdleTimeout = Minute, PoolInitCapacity = 0, PoolMaxCapacity = 10,
             Secure = False, InsecureSkipVerify = False, KV = None\<rparr>"
  let ?u = "\<lparr>Scheme = ''pg'', Opaque = [], User = None, Host = ''h'', Path = ''/x'',
             OmitHost = False, ForceQuery = False,
             RawQuery = ''db=app&max_cap=10&idle_timeout=1m'', Fragment = []\<rparr>"
  have r: "ParseConfigURL fracNanos_exact ?s = Returns (Some ?c, None)"
    by (simp add: rdb_eval Let_def)
  have u: "url_Parse ?s = Inr ?u"
    by (simp add: rdb_eval Let_def)
  have q: "URL_Query ?u = [(''db'', [''app'']), (''max_cap'', [''10'']), (''idle_timeout'', [''1m''])]"
    by (simp add: rdb_eval Let_def)
  from options_to_fields [OF r u] r show ?thesis
    by (simp add: q Values_Get_def KV_keys_def recognized_def)
qed

section \<open>Host and port\<close>

text \<open>
  C8. For every connection string whose host holds a colon: the text before the first
  colon becomes \<open>Hostname\<close>; the segment between the first and the second colon has to
  be read by \<open>strconv.ParseUint(_, 10, 16)\<close>, which accepts exactly the non-empty
  strings of decimal digits whose value is at most 65535, and otherwise the whole decode
  fails with an error; the segments after the second colon are dropped (the host block of
  the code gives the same result on the host cut after its second segment). When the
  host has no colon, \<open>Port\<close> is 0.
\<close>

theorem host_and_port:
  assumes "url_Parse s = Inr u"
  shows "(snd (ParseUint10 (second_segment (Host u)) 16) = None \<longleftrightarrow>
            is_decimal (second_segment (Host u)) \<and> decimal_value (second_segment (Host u)) \<le> 65535)
    \<and> (CHR '':'' \<in> set (Host u)
         \<and> \<not> (is_decimal (second_segment (Host u))
              \<and> decimal_value (second_segment (Host u)) \<le> 65535)
        \<longrightarrow> (\<exists>err. ParseConfigURL fr s = Returns (None, Some err)))
    \<and> (ParseConfigURL fr s = Returns (Some c, None) \<longrightarrow>
          Hostname c = first_segment (Host u)
          \<and> (if CHR '':'' \<in> set (Host u)
             then is_decimal (second_segment (Host u))
                  \<and> Port c = int (decimal_value (second_segment (Host u)))
                  \<and> Port c \<le> 65535
             else Port c = 0))
    \<and> (CHR '':'' \<in> set (Host u) \<longrightarrow>
          hostPort_block (Host u)
            = hostPort_block (first_segment (Host u) @ CHR '':'' # second_segment (Host u)))"
proof -
  let ?p = "second_segment (Host u)"
  have A: "snd (ParseUint10 ?p 16) = None \<longleftrightarrow> is_decimal ?p \<and> decimal_value ?p \<le> 65535"
  proof (cases "is_decimal ?p \<and> decimal_value ?p \<le> 65535")
    case True
    then have "ParseUint10 ?p 16 = (decimal_value ?p, None)"
      by (subst ParseUint10_16) simp
    with True show ?thesis by simp
  next
    case False
    then have "ParseUint10 ?p 16 = (fst (ParseUint10 ?p 16), Some (the (snd (ParseUint10 ?p 16))))"
      by (subst ParseUint10_16) simp
    then have "snd (ParseUint10 ?p 16) \<noteq> None"
      by (metis option.distinct(1) snd_conv)
    with False show ?thesis by auto
  qed
  have B: "\<exists>err. ParseConfigURL fr s = Returns (None, Some err)"
    if "CHR '':'' \<in> set (Host u) \<and> \<not> (is_decimal ?p \<and> decimal_value ?p \<le> 65535)"
  proof -
    from that obtain e where "port_error (Host u) = Some e"
      using port_error_Some by blast
    then show ?thesis
      by (simp add: ParseConfigURL_outcome [OF assms])
  qed
  have C: "Hostname c = first_segment (Host u)
          \<and> (if CHR '':'' \<in> set (Host u)
             then is_decimal ?p \<and> Port c = int (decimal_value ?p) \<and> Port c \<le> 65535
             else Port c = 0)"
    if ok: "ParseConfigURL fr s = Returns (Some c, None)"
  proof -
    from ok assms obtain c: "c = decoded fr s u" and pe: "port_error (Host u) = None"
      by (auto elim: ParseConfigURL_Some)
    from pe show ?thesis
      by (simp add: c decoded_def port_error_None)
  qed
  from A B C hostPort_block_two_segments show ?thesis
    by blast
qed

text \<open>Instances: a host of three segments (the third is dropped), a port that does
  not fit in 16 bits, and a host without a colon.\<close>

theorem host_and_port_witness:
  "(\<exists>c. ParseConfigURL fracNanos_exact ''pg://a:1:2/x'' = Returns (Some c, None)
        \<and> Hostname c = ''a'' \<and> Port c = 1)
   \<and> (\<exists>err. ParseConfigURL fracNanos_exact ''pg://h:65536/x'' = Returns (None, Some err))
   \<and> (\<exists>c. ParseConfigURL fracNanos_exact ''pg://h/x'' = Returns (Some c, None)
        \<and> Hostname c = ''h'' \<and> Port c = 0)
   \<and> hostPort_block ''a:1:2'' = hostPort_block ''a:1''"
proof -
  let ?u1 = "\<lparr>Scheme = ''pg'', Opaque = [], User = None, Host = ''a:1:2'', Path = ''/x'',
              OmitHost = False, ForceQuery = False, RawQuery = [], Fragment = []\<rparr>"
  let ?u2 = "\<lparr>Scheme = ''pg'', Opaque = [], User = None, Host = ''h:65536'', Path = ''/x'',
              OmitHost = False, ForceQuery = False, RawQuery = [], Fragment = []\<rparr>"
  let ?u3 = "\<lparr>Scheme = ''pg'', Opaque = [], User = None, Host = ''h'', Path = ''/x'',
              OmitHost = False, ForceQuery = False, RawQuery = [], Fragment = []\<rparr>"
  let ?c1 = "\<lparr>DriverName = ''pg'', Raw = ''pg://a:1:2/x'', Username = [], Password = [],
             Hostname = ''a'', Port = 1, Instance = ''x'', Database = [], PoolIdleTimeout = 0,
             PoolInitCapacity = 0, PoolMaxCapacity = 0, Secure = False,
             InsecureSkipVerify = False, KV = None\<rparr>"
  let ?c3 = "\<lparr>DriverName = ''pg'', Raw = ''pg://h/x'', Username = [], Password = [],
             Hostname = ''h'', Port = 0, Instance = ''x'', Database = [], PoolIdleTimeout = 0,
             PoolInitCapacity = 0, PoolMaxCapacity = 0, Secure = False,
             InsecureSkipVerify = False, KV = None\<rparr>"
  have u1: "url_Parse ''pg://a:1:2/x'' = Inr ?u1" by (simp add: rdb_eval Let_def)
  have u2: "url_Parse ''pg://h:65536/x'' = Inr ?u2" by (simp add: rdb_eval Let_def)
  have u3: "url_Parse ''pg://h/x'' = Inr ?u3" by (simp add: rdb_eval Let_def)
  have r1: "ParseConfigURL fracNanos_exact ''pg://a:1:2/x'' = Returns (Some ?c1, None)"
    by (simp add: rdb_eval Let_def)
  have r3: "ParseConfigURL fracNanos_exact ''pg://h/x'' = Returns (Some ?c3, None)"
    by (simp add: rdb_eval Let_def)
  have s1: "first_segment ''a:1:2'' = ''a''" "second_segment ''a:1:2'' = ''1''"
    by (simp_all add: first_segment_def second_segment_def)
  have s2: "second_segment ''h:65536'' = ''65536''"
    by (simp add: first_segment_def second_segment_def)
  have d2: "decimal_value ''65536'' = 65536" "decimal_value ''1'' = 1"
    by (simp_all add: decimal_value_def digitVal_def)
  from host_and_port [OF u1, of fracNanos_exact ?c1] r1
  have 1: "Hostname ?c1 = ''a'' \<and> Port ?c1 = 1 \<and> hostPort_block ''a:1:2'' = hostPort_block ''a:1''"
    by (simp add: s1 d2)
  from host_and_port [OF u2, of fracNanos_exact ?c1]
  have 2: "\<exists>err. ParseConfigURL fracNanos_exact ''pg://h:65536/x'' = Returns (None, Some err)"
    by (simp add: s2 d2)
  from host_and_port [OF u3, of fracNanos_exact ?c3] r3
  have 3: "Hostname ?c3 = ''h'' \<and> Port ?c3 = 0"
    by simp
  from 1 2 3 r1 r3 show ?thesis
    by simp
qed

section \<open>Errors and partial results\<close>

text \<open>
  C3 claims that for every input \<open>ParseConfigURL\<close> returns either a Config and a nil
  error or a nil Config and an error, and that a non-integer \<open>init_cap\<close> or
  \<open>max_cap\<close> fails the decode. The first input below has the \<open>init_cap\<close> value \<open>""\<close>,
  which \<open>strconv.Atoi\<close> refuses, and is decoded without an error: the code reads an
  option only \<open>if len(st) != 0\<close>. The second input has a key without a field and the
  call does not return at all.
\<close>

theorem empty_init_cap_counterexample:
  "Atoi [] = (0, Some (ErrSyntax ''Atoi'' []))
   \<and> URL_Query (newURL\<lparr>RawQuery := ''init_cap=''\<rparr>) = [(''init_cap'', [[]])]
   \<and> ParseConfigURL fracNanos_exact ''pg://h/x?init_cap='' =
       Returns
         (Some \<lparr>DriverName = ''pg'', Raw = ''pg://h/x?init_cap='', Username = [], Password = [],
                Hostname = ''h'', Port = 0, Instance = ''x'', Database = [],
                PoolIdleTimeout = 0, PoolInitCapacity = 0, PoolMaxCapacity = 0,
                Secure = False, InsecureSkipVerify = False, KV = None\<rparr>,
          None)
   \<and> ParseConfigURL fracNanos_exact ''pg://h/x?tls=on'' = Panics ''assignment to entry in nil map''"
  by (simp add: rdb_eval Let_def)

text \<open>
  C3, as amended. Whenever \<open>ParseConfigURL\<close> returns, it returns either a Config and a
  nil error, or a nil Config and an error, never a Config beside an error. A connection
  string that \<open>url.Parse\<close> refuses fails the decode with the error of \<open>url.Parse\<close>.
  On a string that \<open>url.Parse\<close> accepts, the decode fails with an error when the
  first value of \<open>init_cap\<close> or of \<open>max_cap\<close> is not empty and \<open>strconv.Atoi\<close>
  refuses it, and when the first value of \<open>idle_timeout\<close> is not empty and
  \<open>time.ParseDuration\<close> refuses it.
\<close>

theorem ParseConfigURL_all_or_nothing:
  "(ParseConfigURL fr s = Returns (conf, err) \<longrightarrow>
      (conf \<noteq> None \<and> err = None) \<or> (conf = None \<and> err \<noteq> None))
   \<and> (url_Parse s = Inl e \<longrightarrow> ParseConfigURL fr s = Returns (None, Some e))
   \<and> (url_Parse s = Inr u \<and> (k = ''init_cap'' \<or> k = ''max_cap'')
        \<and> Values_Get (URL_Query u) k \<noteq> [] \<and> snd (Atoi (Values_Get (URL_Query u) k)) \<noteq> None
      \<longrightarrow> (\<exists>e'. ParseConfigURL fr s = Returns (None, Some e')))
   \<and> (url_Parse s = Inr u \<and> Values_Get (URL_Query u) ''idle_timeout'' \<noteq> []
        \<and> snd (ParseDuration fr (Values_Get (URL_Query u) ''idle_timeout'')) \<noteq> None
      \<longrightarrow> (\<exists>e'. ParseConfigURL fr s = Returns (None, Some e')))"
proof -
  have A: "(conf \<noteq> None \<and> err = None) \<or> (conf = None \<and> err \<noteq> None)"
    if r: "ParseConfigURL fr s = Returns (conf, err)"
    using ParseConfigURL_three_outcomes [of fr s] r by auto
  have B: "\<exists>e'. ParseConfigURL fr s = Returns (None, Some e')"
    if u: "url_Parse s = Inr u" and oe: "option_error fr (URL_Query u) \<noteq> None"
  proof (cases "port_error (Host u)")
    case None
    with oe show ?thesis by (auto simp: ParseConfigURL_outcome [OF u])
  next
    case (Some e)
    then show ?thesis by (simp add: ParseConfigURL_outcome [OF u])
  qed
  have C: "option_error fr (URL_Query u) \<noteq> None"
    if "(k = ''init_cap'' \<or> k = ''max_cap'')
        \<and> Values_Get (URL_Query u) k \<noteq> [] \<and> snd (Atoi (Values_Get (URL_Query u) k)) \<noteq> None"
    using that by (auto simp: option_error_None)
  have D: "option_error fr (URL_Query u) \<noteq> None"
    if "Values_Get (URL_Query u) ''idle_timeout'' \<noteq> []
        \<and> snd (ParseDuration fr (Values_Get (URL_Query u) ''idle_timeout'')) \<noteq> None"
    using that by (auto simp: option_error_None)
  from A B C D show ?thesis
    by (auto simp: ParseConfigURL_Inl)
qed

text \<open>Instances: a malformed URL, a \<open>max_cap\<close> that is not a number, an
  \<open>idle_timeout\<close> without a unit, and a string that is decoded.\<close>

theorem ParseConfigURL_all_or_nothing_witness:
  "ParseConfigURL fracNanos_exact ''pg://h/%zz''
     = Returns (None, Some (ErrURL ''pg://h/%zz'' (EscapeError ''%zz'')))
   \<and> (\<exists>e. ParseConfigURL fracNanos_exact ''pg://h/x?max_cap=ten'' = Returns (None, Some e))
   \<and> (\<exists>e. ParseConfigURL fracNanos_exact ''pg://h/x?idle_timeout=5'' = Returns (None, Some e))
   \<and> (\<exists>c. ParseConfigURL fracNanos_exact ''pg://h/x?init_cap=2'' = Returns (Some c, None))"
proof -
  let ?u = "\<lambda>q. \<lparr>Scheme = ''pg'', Opaque = [], User = None, Host = ''h'', Path = ''/x'',
                 OmitHost = False, ForceQuery = False, RawQuery = q, Fragment = []\<rparr>"
  have u1: "url_Parse ''pg://h/%zz'' = Inl (ErrURL ''pg://h/%zz'' (EscapeError ''%zz''))"
    by (simp add: rdb_eval Let_def)
  have u2: "url_Parse ''pg://h/x?max_cap=ten'' = Inr (?u ''max_cap=ten'')"
    by (simp add: rdb_eval Let_def)
  have q2: "Values_Get (URL_Query (?u ''max_cap=ten'')) ''max_cap'' = ''ten''"
    by (simp add: rdb_eval Let_def)
  have a2: "snd (Atoi ''ten'') \<noteq> None"
    by (simp add: rdb_eval Let_def)
  have u3: "url_Parse ''pg://h/x?idle_timeout=5'' = Inr (?u ''idle_timeout=5'')"
    by (simp add: rdb_eval Let_def)
  have q3: "Values_Get (URL_Query (?u ''idle_timeout=5'')) ''idle_timeout'' = ''5''"
    by (simp add: rdb_eval Let_def)
  have a3: "snd (ParseDuration fracNanos_exact ''5'') \<noteq> None"
    by (simp add: rdb_eval Let_def)
  have r4: "ParseConfigURL fracNanos_exact ''pg://h/x?init_cap=2''
      = Returns (Some \<lparr>DriverName = ''pg'', Raw = ''pg://h/x?init_cap=2'', Username = [],
              Password = [], Hostname = ''h'', Port = 0, Instance = ''x'', Database = [],
              PoolIdleTimeout = 0, PoolInitCapacity = 2, PoolMaxCapacity = 0,
              Secure = False, InsecureSkipVerify = False, KV = None\<rparr>, None)"
    by (simp add: rdb_eval Let_def)
  from ParseConfigURL_all_or_nothing
         [where fr = fracNanos_exact and s = "''pg://h/%zz''"
            and e = "ErrURL ''pg://h/%zz'' (EscapeError ''%zz'')"] u1
  have 1: "ParseConfigURL fracNanos_exact ''pg://h/%zz''
     = Returns (None, Some (ErrURL ''pg://h/%zz'' (EscapeError ''%zz'')))"
    by blast
  from ParseConfigURL_all_or_nothing
         [where fr = fracNanos_exact and s = "''pg://h/x?max_cap=ten''"
            and u = "?u ''max_cap=ten''" and k = "''max_cap''"] u2 q2 a2
  have 2: "\<exists>e. ParseConfigURL fracNanos_exact ''pg://h/x?max_cap=ten'' = Returns (None, Some e)"
    by simp
  from ParseConfigURL_all_or_nothing
         [where fr = fracNanos_exact and s = "''pg://h/x?idle_timeout=5''"
            and u = "?u ''idle_timeout=5''"] u3 q3 a3
  have 3: "\<exists>e. ParseConfigURL fracNanos_exact ''pg://h/x?idle_timeout=5'' = Returns (None, Some e)"
    by simp
  from 1 2 3 r4 show ?thesis
    by simp
qed

section \<open>Pool sizing\<close>

text \<open>
  C5 claims that every Config of a successful call has
  \<open>0 < PoolInitCapacity \<le> PoolMaxCapacity\<close>. \<open>ParseConfigURL\<close> stores the two numbers
  as they are written and compares nothing: here 5 and 2.
\<close>

theorem pool_sizing_counterexample:
  "ParseConfigURL fracNanos_exact ''pg://h/x?init_cap=5&max_cap=2'' =
     Returns
       (Some \<lparr>DriverName = ''pg'', Raw = ''pg://h/x?init_cap=5&max_cap=2'', Username = [],
              Password = [], Hostname = ''h'', Port = 0, Instance = ''x'', Database = [],
              PoolIdleTimeout = 0, PoolInitCapacity = 5, PoolMaxCapacity = 2,
              Secure = False, InsecureSkipVerify = False, KV = None\<rparr>,
        None)
   \<and> \<not> pool_sizing_valid
         \<lparr>DriverName = ''pg'', Raw = ''pg://h/x?init_cap=5&max_cap=2'', Username = [],
          Password = [], Hostname = ''h'', Port = 0, Instance = ''x'', Database = [],
          PoolIdleTimeout = 0, PoolInitCapacity = 5, PoolMaxCapacity = 2,
          Secure = False, InsecureSkipVerify = False, KV = None\<rparr>"
  by (simp add: rdb_eval pool_sizing_valid_def Let_def)

text \<open>
  C5, as amended. In every Config of a successful call, \<open>PoolInitCapacity\<close> and
  \<open>PoolMaxCapacity\<close> are the integers that \<open>init_cap\<close> and \<open>max_cap\<close> stand for in the
  connection string (0 for an option that is absent or empty); so the Config satisfies
  \<open>0 < PoolInitCapacity \<le> PoolMaxCapacity\<close> exactly when the connection string's own
  values do.
\<close>

theorem pool_sizing_not_validated:
  assumes "ParseConfigURL fr s = Returns (Some c, None)" and "url_Parse s = Inr u"
  shows "PoolInitCapacity c = option_cap (URL_Query u) ''init_cap''
    \<and> PoolMaxCapacity c = option_cap (URL_Query u) ''max_cap''
    \<and> (pool_sizing_valid c \<longleftrightarrow>
         0 < option_cap (URL_Query u) ''init_cap''
         \<and> option_cap (URL_Query u) ''init_cap'' \<le> option_cap (URL_Query u) ''max_cap'')"
proof -
  from assms have "c = decoded fr s u"
    by (auto elim: ParseConfigURL_Some)
  then show ?thesis
    by (simp add: decoded_def option_cap_def pool_sizing_valid_def)
qed

text \<open>Instances: valid capacities, and a missing \<open>init_cap\<close>.\<close>

theorem pool_sizing_not_validated_witness:
  "(\<exists>c. ParseConfigURL fracNanos_exact ''pg://h/x?init_cap=2&max_cap=10'' = Returns (Some c, None)
        \<and> PoolInitCapacity c = 2 \<and> PoolMaxCapacity c = 10 \<and> pool_sizing_valid c)
   \<and> (\<exists>c. ParseConfigURL fracNanos_exact ''pg://h/x?max_cap=10'' = Returns (Some c, None)
        \<and> PoolInitCapacity c = 0 \<and> PoolMaxCapacity c = 10 \<and> \<not> pool_sizing_valid c)"
proof -
  let ?u = "\<lambda>q. \<lparr>Scheme = ''pg'', Opaque = [], User = None, Host = ''h'', Path = ''/x'',
                 OmitHost = False, ForceQuery = False, RawQuery = q, Fragment = []\<rparr>"
  let ?c = "\<lambda>raw i m. \<lparr>DriverName = ''pg'', Raw = raw, Username = [],
              Password = [], Hostname = ''h'', Port = 0, Instance = ''x'', Database = [],
              PoolIdleTimeout = 0, PoolInitCapacity = i, PoolMaxCapacity = m,
              Secure = False, InsecureSkipVerify = False, KV = None\<rparr>"
  have u1: "url_Parse ''pg://h/x?init_cap=2&max_cap=10'' = Inr (?u ''init_cap=2&max_cap=10'')"
    by (simp add: rdb_eval Let_def)
  have r1: "ParseConfigURL fracNanos_exact ''pg://h/x?init_cap=2&max_cap=10''
      = Returns (Some (?c ''pg://h/x?init_cap=2&max_cap=10'' 2 10), None)"
    by (simp add: rdb_eval Let_def)
  have q1: "option_cap (URL_Query (?u ''init_cap=2&max_cap=10'')) ''init_cap'' = 2"
           "option_cap (URL_Query (?u ''init_cap=2&max_cap=10'')) ''max_cap'' = 10"
    by (simp_all add: option_cap_def rdb_eval Let_def)
  have u2: "url_Parse ''pg://h/x?max_cap=10'' = Inr (?u ''max_cap=10'')"
    by (simp add: rdb_eval Let_def)
  have r2: "ParseConfigURL fracNanos_exact ''pg://h/x?max_cap=10''
      = Returns (Some (?c ''pg://h/x?max_cap=10'' 0 10), None)"
    by (simp add: rdb_eval Let_def)
  have q2: "option_cap (URL_Query (?u ''max_cap=10'')) ''init_cap'' = 0"
           "option_cap (URL_Query (?u ''max_cap=10'')) ''max_cap'' = 10"
    by (simp_all add: option_cap_def rdb_eval Let_def)
  from pool_sizing_not_validated [OF r1 u1]
  have 1: "pool_sizing_valid (?c ''pg://h/x?init_cap=2&max_cap=10'' 2 10)"
    by (simp add: q1)
  from pool_sizing_not_validated [OF r2 u2]
  have 2: "\<not> pool_sizing_valid (?c ''pg://h/x?max_cap=10'' 0 10)"
    by (simp add: q2)
  from 1 2 r1 r2 show ?thesis
    by simp
qed

section \<open>Instance\<close>

text \<open>
  C6. A connection string names its driver: it has a scheme, as in
  \<open>driver://[username:password@][url[:port]]/[Instance]\<close>. For every such string that
  is decoded successfully: when the path of the parsed URL is not empty, it begins with
  the separator \<open>/\<close> and \<open>Instance\<close> is the path without this single leading
  separator; when the path is empty, \<open>Instance\<close> is the empty string.
\<close>

theorem Instance_after_leading_separator:
  assumes "ParseConfigURL fr s = Returns (Some c, None)" and "url_Parse s = Inr u"
    and "Scheme u \<noteq> []"
  shows "(Path u \<noteq> [] \<longrightarrow> Path u = CHR ''/'' # Instance c)
    \<and> (Path u = [] \<longrightarrow> Instance c = [])"
proof -
  from assms(1,2) have c: "c = decoded fr s u"
    by (auto elim: ParseConfigURL_Some)
  have "Path u = CHR ''/'' # drop 1 (Path u)" if "Path u \<noteq> []"
    using url_Parse_rooted [OF assms(2,3)] that by (cases "Path u") auto
  with c show ?thesis
    by (auto simp: decoded_def)
qed

text \<open>Instances: a file path after an empty host, a path of two separators (one is
  removed), and an empty path.\<close>

theorem Instance_after_leading_separator_witness:
  "(\<exists>c. ParseConfigURL fracNanos_exact ''sqlite:///srv/folder/file.sqlite3'' = Returns (Some c, None)
        \<and> Instance c = ''srv/folder/file.sqlite3'')
   \<and> (\<exists>c. ParseConfigURL fracNanos_exact ''pg://h//x'' = Returns (Some c, None)
        \<and> Instance c = ''/x'')
   \<and> (\<exists>c. ParseConfigURL fracNanos_exact ''pg://h'' = Returns (Some c, None) \<and> Instance c = [])"
proof -
  let ?c = "\<lambda>d raw h i. \<lparr>DriverName = d, Raw = raw, Username = [],
              Password = [], Hostname = h, Port = 0, Instance = i, Database = [],
              PoolIdleTimeout = 0, PoolInitCapacity = 0, PoolMaxCapacity = 0,
              Secure = False, InsecureSkipVerify = False, KV = None\<rparr>"
  let ?u = "\<lambda>sch h p. \<lparr>Scheme = sch, Opaque = [], User = None, Host = h, Path = p,
              OmitHost = False, ForceQuery = False, RawQuery = [], Fragment = []\<rparr>"
  have u1: "url_Parse ''sqlite:///srv/folder/file.sqlite3''
      = Inr (?u ''sqlite'' [] ''/srv/folder/file.sqlite3'')"
    by (simp add: rdb_eval Let_def)
  have r1: "ParseConfigURL fracNanos_exact ''sqlite:///srv/folder/file.sqlite3''
      = Returns (Some (?c ''sqlite'' ''sqlite:///srv/folder/file.sqlite3'' []
                        ''srv/folder/file.sqlite3''), None)"
    by (simp add: rdb_eval Let_def)
  have u2: "url_Parse ''pg://h//x'' = Inr (?u ''pg'' ''h'' ''//x'')"
    by (simp add: rdb_eval Let_def)
  have r2: "ParseConfigURL fracNanos_exact ''pg://h//x''
      = Returns (Some (?c ''pg'' ''pg://h//x'' ''h'' ''/x''), None)"
    by (simp add: rdb_eval Let_def)
  have u3: "url_Parse ''pg://h'' = Inr (?u ''pg'' ''h'' [])"
    by (simp add: rdb_eval Let_def)
  have r3: "ParseConfigURL fracNanos_exact ''pg://h'' = Returns (Some (?c ''pg'' ''pg://h'' ''h'' []), None)"
    by (simp add: rdb_eval Let_def)
  have 1: "''/srv/folder/file.sqlite3'' = CHR ''/'' # Instance (?c ''sqlite'' ''sqlite:///srv/folder/file.sqlite3'' [] ''srv/folder/file.sqlite3'')"
    using Instance_after_leading_separator [OF r1 u1] by simp
  have 2: "''//x'' = CHR ''/'' # Instance (?c ''pg'' ''pg://h//x'' ''h'' ''/x'')"
    using Instance_after_leading_separator [OF r2 u2] by simp
  have 3: "Instance (?c ''pg'' ''pg://h'' ''h'' []) = []"
    using Instance_after_leading_separator [OF r3 u3] by simp
  from 1 2 3 r1 r2 r3 show ?thesis
    by simp
qed

section \<open>Query keys without a field\<close>

text \<open>
  C2 claims that a query key other than \<open>db\<close>, \<open>init_cap\<close>, \<open>max_cap\<close> and
  \<open>idle_timeout\<close> is stored in the map \<open>KV\<close> of the returned Config. The code has the
  loop that stores it, but \<open>KV\<close> is never made: the Config literal leaves it nil, and
  the first assignment panics. On \<open>pg://h/x?foo=bar\<close> no Config is returned.
\<close>

theorem leftover_key_panics:
  "ParseConfigURL fr ''pg://h/x?foo=bar'' = Panics ''assignment to entry in nil map''"
  by (simp add: rdb_eval Let_def)

text \<open>
  C10 claims that \<open>ParseConfigURL\<close> returns for every input, without panicking. By
  the same defect it panics on the third example of its own doc comment,
  \<open>sqlite:///srv/folder/file.sqlite3?opt1=valA&opt2=valB\<close>.
\<close>

theorem documented_example_panics:
  "ParseConfigURL fr ''sqlite:///srv/folder/file.sqlite3?opt1=valA&opt2=valB''
     = Panics ''assignment to entry in nil map''"
  by (simp add: rdb_eval Let_def)

end
